theory Spec2Isabelle
  imports Main
begin

section \<open>Errors, collaborators and traces\<close>

text \<open>
  Go errors are values. \<open>New s\<close> is an error with message \<open>s\<close> (\<open>errors.New\<close>, a
  \<open>fmt.Errorf\<close> without \<open>%w\<close>, or an error handed back by a collaborator);
  \<open>Errorf p e\<close> is \<open>fmt.Errorf(p + ": %w", e)\<close> with the other verbs of \<open>p\<close> already
  filled in; \<open>Join es\<close> is \<open>errors.Join\<close> of the non-empty list \<open>es\<close>.
\<close>

datatype error = New string | Errorf string error | Join "error list"



text \<open>\<open>errors.Join\<close> returns nil when it is given no error.\<close>

definition errors_Join :: "error list \<Rightarrow> error option" where
  "errors_Join errs = (if errs = [] then None else Some (Join errs))"

text \<open>\<open>fmt.Errorf(p + ": %w", err)\<close> where \<open>err\<close> may be nil.\<close>

definition Errorf_w :: "string \<Rightarrow> error option \<Rightarrow> error" where
  "Errorf_w p err = (case err of None \<Rightarrow> New (p @ '': %!w(<nil>)'') | Some e \<Rightarrow> Errorf p e)"

text \<open>The verb \<open>%d\<close> on a length.\<close>

definition digit :: "nat \<Rightarrow> char" where
  "digit n = ''0123456789'' ! n"

fun show_nat :: "nat \<Rightarrow> string" where
  "show_nat n = (if n < 10 then [digit n] else show_nat (n div 10) @ [digit (n mod 10)])"

declare show_nat.simps [simp del]

text \<open>\<open>time.Duration\<close> counts nanoseconds in an \<open>int64\<close>; the commands only compare and
  divide durations, so they are integers here.\<close>

definition Millisecond :: int where
  "Millisecond = 1000000"

definition Minute :: int where
  "Minute = 60000000000"

definition Milliseconds :: "int \<Rightarrow> int" where
  "Milliseconds d = d div Millisecond"

text \<open>An instance as the remote service describes it.\<close>

record GetResponseItem =
  UUID :: string

text \<open>
  Every request to a collaborator is an event. The trace of an invocation is the list of
  its events in the order they were issued. The client is bound to the token and the metro
  of the options; they are not repeated in the events. \<open>Prompt q ls\<close> is the selection
  prompt with question \<open>q\<close> and the labels \<open>ls\<close>; \<open>Deployed n ok\<close> is a call of the
  \<open>Deploy\<close> operation of the deployer named \<open>n\<close> and whether it succeeded; \<open>Sleep d\<close> is
  \<open>time.Sleep(d)\<close>; \<open>PrettyPrint\<close> and \<open>Print\<close> are the two output routines of the deploy
  command.
\<close>

datatype event =
    List
  | StopByUUIDs int "string list"
  | StopByNames int "string list"
  | DeleteByUUIDs "string list"
  | DeleteByNames "string list"
  | GetByUUIDs "string list"
  | GetByNames "string list"
  | DeleteByUUID string
  | DeleteByName string
  | Fprintln string
  | Prompt string "string list"
  | Deployed string bool
  | Sleep int
  | PrettyPrint
  | Print string

text \<open>
  The collaborators outside the commands: the credential loader and the remote service.
  The service answers a request knowing the requests before it, so it may keep any state.
\<close>

record cloud_env =
  GetKraftCloudAuthConfig :: "string \<Rightarrow> error + string"
  remote :: "event list \<Rightarrow> event \<Rightarrow> error + GetResponseItem list"

text \<open>Issue a request: the answer, and the trace with the request appended.\<close>

definition call :: "'a cloud_env_scheme \<Rightarrow> event list \<Rightarrow> event \<Rightarrow>
    (error + GetResponseItem list) \<times> event list" where
  "call env tr ev = (remote env tr ev, tr @ [ev])"

section \<open>Identifier classifier\<close>

definition is_hex :: "char \<Rightarrow> bool" where
  "is_hex c = (c \<in> set ''0123456789abcdefABCDEF'')"

fun take_hex :: "nat \<Rightarrow> string \<Rightarrow> string option" where
  "take_hex 0 s = Some s"
| "take_hex (Suc n) [] = None"
| "take_hex (Suc n) (c # s) = (if is_hex c then take_hex n s else None)"

fun take_dash :: "string \<Rightarrow> string option" where
  "take_dash [] = None"
| "take_dash (c # s) = (if c = CHR ''-'' then Some s else None)"

text \<open>
  Modelled from the spec: \<open>utils.IsUUID\<close> is not among the sources. The token is a UUID
  iff it matches the canonical 36-character hyphenated hexadecimal format, in either case:
  groups of 8, 4, 4, 4 and 12 hexadecimal digits separated by hyphens.
\<close>

definition IsUUID :: "string \<Rightarrow> bool" where
  "IsUUID s =
     (Option.bind (Option.bind (Option.bind (Option.bind (Option.bind (Option.bind
        (Option.bind (Option.bind (take_hex 8 s) take_dash) (take_hex 4)) take_dash)
        (take_hex 4)) take_dash) (take_hex 4)) take_dash) (take_hex 12) = Some [])"

text \<open>
  The classification loop of the stop and remove commands: it clears a flag for every
  argument and leaves the loop as soon as both are cleared.
\<close>

fun classify :: "bool \<times> bool \<Rightarrow> string list \<Rightarrow> bool \<times> bool" where
  "classify (allUUIDs, allNames) [] = (allUUIDs, allNames)"
| "classify (allUUIDs, allNames) (arg # args) =
     (let allNames' = (if IsUUID arg then False else allNames);
          allUUIDs' = (if IsUUID arg then allUUIDs else False)
      in if \<not> (allUUIDs' \<or> allNames') then (allUUIDs', allNames')
         else classify (allUUIDs', allNames') args)"

section \<open>kraft cloud instance stop\<close>

record StopOptions =
  DrainTimeout :: int
  Output :: string
  All :: bool
  Metro :: string
  Token :: string

text \<open>
  The options as the flag parser leaves them when no flag is given: only \<open>Output\<close>
  carries a \<open>default\<close> tag, every other field keeps the zero value of its type.
\<close>

definition StopOptions_default :: StopOptions where
  "StopOptions_default =
     \<lparr>DrainTimeout = 0, Output = ''table'', All = False, Metro = [], Token = []\<rparr>"

text \<open>The per-item loop of \<open>StopOptions.Run\<close>: it returns at the first failure.\<close>

fun stop_each :: "'a cloud_env_scheme \<Rightarrow> int \<Rightarrow> string list \<Rightarrow> event list \<Rightarrow>
    error option \<times> event list" where
  "stop_each env timeout [] tr = (None, tr)"
| "stop_each env timeout (arg # args) tr =
     (case call env tr (if IsUUID arg then StopByUUIDs timeout [arg]
                        else StopByNames timeout [arg]) of
        (Inl err, tr') \<Rightarrow> (Some (Errorf (''could not stop instance '' @ arg) err), tr')
      | (Inr _, tr') \<Rightarrow> stop_each env timeout args tr')"

text \<open>\<open>StopOptions.Run\<close>: the returned error (\<open>None\<close> is nil) and the trace.\<close>

definition stop_Run :: "'a cloud_env_scheme \<Rightarrow> StopOptions \<Rightarrow> string list \<Rightarrow>
    error option \<times> event list" where
  "stop_Run env opts args =
     (case GetKraftCloudAuthConfig env (Token opts) of
        Inl err \<Rightarrow> (Some (Errorf ''could not retrieve credentials'' err), [])
      | Inr auth \<Rightarrow>
          if DrainTimeout opts < Millisecond
          then (Some (New ''drain timeout must be at least 1ms''), [])
          else
            let timeout = DrainTimeout opts div Millisecond in
            if All opts then
              (case call env [] List of
                 (Inl err, tr) \<Rightarrow> (Some (Errorf ''could not list instances'' err), tr)
               | (Inr instListResp, tr) \<Rightarrow>
                   (case call env tr (StopByUUIDs timeout (map UUID instListResp)) of
                      (Inl err, tr') \<Rightarrow> (None, tr')
                    | (Inr _, tr') \<Rightarrow> (None, tr')))
            else
              (case classify (True, True) args of
                 (allUUIDs, allNames) \<Rightarrow>
                   if allUUIDs then
                     (case call env [] (StopByUUIDs timeout args) of
                        (Inl err, tr) \<Rightarrow>
                          (Some (Errorf (''stopping '' @ show_nat (length args) @ '' instance(s)'')
                             err), tr)
                      | (Inr _, tr) \<Rightarrow> (None, tr))
                   else if allNames then
                     (case call env [] (StopByNames timeout args) of
                        (Inl err, tr) \<Rightarrow>
                          (Some (Errorf (''stopping '' @ show_nat (length args) @ '' instance(s)'')
                             err), tr)
                      | (Inr _, tr) \<Rightarrow> (None, tr))
                   else stop_each env timeout args []))"

section \<open>kraft cloud instance remove\<close>

record RemoveOptions =
  Output_rm :: string
  All_rm :: bool
  metro :: string
  token :: string

text \<open>The per-item loop of the instance \<open>RemoveOptions.Run\<close>.\<close>

fun remove_each :: "'a cloud_env_scheme \<Rightarrow> string list \<Rightarrow> event list \<Rightarrow>
    error option \<times> event list" where
  "remove_each env [] tr = (None, tr)"
| "remove_each env (arg # args) tr =
     (case call env tr (if IsUUID arg then DeleteByUUIDs [arg] else DeleteByNames [arg]) of
        (Inl err, tr') \<Rightarrow> (Some (Errorf (''could not remove instance '' @ arg) err), tr')
      | (Inr _, tr') \<Rightarrow> remove_each env args tr')"

text \<open>The instance \<open>RemoveOptions.Run\<close>.\<close>

definition remove_Run :: "'a cloud_env_scheme \<Rightarrow> RemoveOptions \<Rightarrow> string list \<Rightarrow>
    error option \<times> event list" where
  "remove_Run env opts args =
     (case GetKraftCloudAuthConfig env (token opts) of
        Inl err \<Rightarrow> (Some (Errorf ''could not retrieve credentials'' err), [])
      | Inr auth \<Rightarrow>
          if All_rm opts then
            (case call env [] List of
               (Inl err, tr) \<Rightarrow> (Some (Errorf ''could not list instances'' err), tr)
             | (Inr instListResp, tr) \<Rightarrow>
                 (case call env tr (DeleteByUUIDs (map UUID instListResp)) of
                    (Inl err, tr') \<Rightarrow>
                      (Some (Errorf (''removing '' @ show_nat (length instListResp)
                         @ '' instance(s)'') err), tr')
                  | (Inr _, tr') \<Rightarrow> (None, tr')))
          else
            (case classify (True, True) args of
               (allUUIDs, allNames) \<Rightarrow>
                 if allUUIDs then
                   (case call env [] (DeleteByUUIDs args) of
                      (Inl err, tr) \<Rightarrow>
                        (Some (Errorf (''removing '' @ show_nat (length args) @ '' instance(s)'')
                           err), tr)
                    | (Inr _, tr) \<Rightarrow> (None, tr))
                 else if allNames then
                   (case call env [] (DeleteByNames args) of
                      (Inl err, tr) \<Rightarrow>
                        (Some (Errorf (''removing '' @ show_nat (length args) @ '' instance(s)'')
                           err), tr)
                    | (Inr _, tr) \<Rightarrow> (None, tr))
                 else remove_each env args []))"

section \<open>kraft cloud volume remove\<close>

record VolumeRemoveOptions =
  metro_vol :: string
  token_vol :: string

text \<open>
  The loop of the volume \<open>RemoveOptions.Run\<close>: one request for each argument, then the
  argument is written to the output stream; either failure ends the command.
\<close>

fun volume_remove_each :: "'a cloud_env_scheme \<Rightarrow> string list \<Rightarrow> event list \<Rightarrow>
    error option \<times> event list" where
  "volume_remove_each env [] tr = (None, tr)"
| "volume_remove_each env (arg # args) tr =
     (case call env tr (if IsUUID arg then DeleteByUUID arg else DeleteByName arg) of
        (Inl err, tr') \<Rightarrow> (Some (Errorf ''could not delete volume'' err), tr')
      | (Inr _, tr') \<Rightarrow>
          (case call env tr' (Fprintln arg) of
             (Inl err, tr'') \<Rightarrow> (Some (Errorf ''could not write volume UUID'' err), tr'')
           | (Inr _, tr'') \<Rightarrow> volume_remove_each env args tr''))"

definition volume_remove_Run :: "'a cloud_env_scheme \<Rightarrow> VolumeRemoveOptions \<Rightarrow>
    string list \<Rightarrow> error option \<times> event list" where
  "volume_remove_Run env opts args =
     (case GetKraftCloudAuthConfig env (token_vol opts) of
        Inl err \<Rightarrow> (Some (Errorf ''could not retrieve credentials'' err), [])
      | Inr auth \<Rightarrow> volume_remove_each env args [])"

section \<open>kraft cloud deploy\<close>

text \<open>The fields of \<open>DeployOptions\<close> that \<open>Run\<close> reads or writes.\<close>

record DeployOptions =
  DeployAs :: string
  Metro_d :: string
  Name_d :: string
  NoStart :: bool
  Output_d :: string
  Rollout :: string
  Timeout :: int
  Token_d :: string
  Workdir :: string

type_synonym ServiceGroup = string

text \<open>
  The deployer interface: its name, its label (the deployers are \<open>fmt.Stringer\<close>s, as
  the selection prompt requires), its capability check and its deploy operation. The
  capability check is a function of the options and the arguments.
\<close>

record deployer =
  Name :: string
  String :: string
  Deployable :: "DeployOptions \<Rightarrow> string list \<Rightarrow> bool \<times> error option"
  Deploy :: "DeployOptions \<Rightarrow> string list \<Rightarrow>
    error + GetResponseItem list \<times> ServiceGroup list"

text \<open>
  The collaborators of the deploy command: \<open>IsDir p\<close> holds when \<open>os.Stat(p)\<close> succeeds
  on a directory, \<open>Abs\<close> is \<open>filepath.Abs\<close>, \<open>Getwd\<close> is \<open>os.Getwd()\<close>, \<open>deployers\<close> is
  the registry in registration order, \<open>NoPrompt\<close> the configuration flag, \<open>Select\<close> the
  answer of the selection prompt, \<open>NewProcessTree\<close> the error of constructing the process
  tree (if any) and \<open>PrintInstances\<close> the error of the output routine (if any).
\<close>

record deploy_env = cloud_env +
  IsDir :: "string \<Rightarrow> bool"
  Abs :: "string \<Rightarrow> error + string"
  Getwd :: "error + string"
  deployers :: "deployer list"
  NoPrompt :: bool
  Select :: "string \<Rightarrow> deployer list \<Rightarrow> error + deployer"
  NewProcessTree :: "error option"
  PrintInstances :: "string \<Rightarrow> GetResponseItem list \<Rightarrow> error option"

text \<open>A Go function either returns or panics.\<close>

datatype result = Returned "error option" | Panicked string

text \<open>
  Lines 143-178 of \<open>DeployOptions.Run\<close>: the credentials, the check that the name is free
  and the working directory. The result is the early return, or the options and arguments
  as the rest of \<open>Run\<close> sees them.
\<close>

definition prepare :: "deploy_env \<Rightarrow> DeployOptions \<Rightarrow> string list \<Rightarrow>
    (error \<times> event list) + (DeployOptions \<times> string list \<times> event list)" where
  "prepare env opts args =
     (case GetKraftCloudAuthConfig env (Token_d opts) of
        Inl err \<Rightarrow> Inl (Errorf ''could not retrieve credentials'' err, [])
      | Inr auth \<Rightarrow>
          (case (if length (Name_d opts) > 0
                 then (case call env [] (GetByNames [Name_d opts]) of
                         (Inl err, tr) \<Rightarrow> (False, tr)
                       | (Inr x, tr) \<Rightarrow> (True, tr))
                 else (False, [])) of
             (True, tr) \<Rightarrow>
               Inl (New (''service name '' @ [CHR 0x27] @ Name_d opts @ [CHR 0x27]
                      @ '' is already taken''), tr)
           | (False, tr) \<Rightarrow>
               (case (if length args > 0 \<and> IsDir env (args ! 0)
                      then (case Abs env (args ! 0) of
                              Inl err \<Rightarrow>
                                Inl (Errorf (''could not calculate absolute path of ''
                                  @ [CHR 0x27] @ args ! 0 @ [CHR 0x27]) err)
                            | Inr path \<Rightarrow> Inr (opts\<lparr>Workdir := path\<rparr>, tl args))
                      else Inr (opts, args)) of
                  Inl err \<Rightarrow> Inl (err, tr)
                | Inr (opts1, args1) \<Rightarrow>
                    if Workdir opts1 = [] then
                      (case Getwd env of
                         Inl err \<Rightarrow> Inl (New ''could not get current working directory'', tr)
                       | Inr wd \<Rightarrow> Inr (opts1\<lparr>Workdir := wd\<rparr>, args1, tr))
                    else Inr (opts1, args1, tr))))"

text \<open>
  The probing loop (lines 184-202): the capable candidates and the errors of the capability
  checks, each in registration order.
\<close>

fun probe :: "deployer list \<Rightarrow> DeployOptions \<Rightarrow> string list \<Rightarrow>
    deployer list \<times> error list \<Rightarrow> deployer list \<times> error list" where
  "probe [] opts args (candidates, errs) = (candidates, errs)"
| "probe (candidate # rest) opts args (candidates, errs) =
     (if DeployAs opts \<noteq> [] \<and> Name candidate \<noteq> DeployAs opts
      then probe rest opts args (candidates, errs)
      else
        (case Deployable candidate opts args of
           (capable, err) \<Rightarrow>
             if capable \<and> err = None
             then probe rest opts args (candidates @ [candidate], errs)
             else (case err of
                     Some e \<Rightarrow> probe rest opts args (candidates, errs @ [e])
                   | None \<Rightarrow> probe rest opts args (candidates, errs))))"

definition question :: string where
  "question = ''multiple deployable contexts discovered: how would you like to proceed?''"

fun join_spaces :: "string list \<Rightarrow> string" where
  "join_spaces [] = []"
| "join_spaces [s] = s"
| "join_spaces (s # t # ss) = s @ '' '' @ join_spaces (t # ss)"

text \<open>The verb \<open>%v\<close> on the slice of candidates.\<close>

definition fmt_v :: "deployer list \<Rightarrow> string" where
  "fmt_v ds = ''['' @ join_spaces (map String ds) @ '']''"

text \<open>Lines 180-219: the deployer to use, or the error \<open>Run\<close> returns.\<close>

definition resolve :: "deploy_env \<Rightarrow> DeployOptions \<Rightarrow> string list \<Rightarrow> event list \<Rightarrow>
    (error + deployer) \<times> event list" where
  "resolve env opts args tr =
     (case probe (deployers env) opts args ([], []) of
        (candidates, errs) \<Rightarrow>
          if length candidates = 0 then
            (Inl (Errorf_w ''could not determine how to run provided input''
               (errors_Join errs)), tr)
          else if length candidates = 1 then (Inr (candidates ! 0), tr)
          else if \<not> NoPrompt env then
            (case Select env question candidates of
               Inl err \<Rightarrow> (Inl err, tr @ [Prompt question (map String candidates)])
             | Inr candidate \<Rightarrow>
                 (Inr candidate, tr @ [Prompt question (map String candidates)]))
          else (Inl (New (''multiple contexts discovered: '' @ fmt_v candidates)), tr))"

text \<open>
  Lines 140-226: everything up to and including the deploy operation. The result is the
  early return, or the options, the new instances and service groups, and the trace.
\<close>

definition deploy_new :: "deploy_env \<Rightarrow> DeployOptions \<Rightarrow> string list \<Rightarrow>
    (error \<times> event list) +
    (DeployOptions \<times> GetResponseItem list \<times> ServiceGroup list \<times> event list)" where
  "deploy_new env opts args =
     (case prepare env opts args of
        Inl early \<Rightarrow> Inl early
      | Inr (opts1, args1, tr) \<Rightarrow>
          (case resolve env opts1 args1 tr of
             (Inl err, tr1) \<Rightarrow> Inl (err, tr1)
           | (Inr d, tr1) \<Rightarrow>
               (case Deploy d opts1 args1 of
                  Inl err \<Rightarrow>
                    Inl (Errorf ''could not prepare deployment'' err,
                         tr1 @ [Deployed (Name d) False])
                | Inr (insts, sgs) \<Rightarrow>
                    Inr (opts1, insts, sgs, tr1 @ [Deployed (Name d) True]))))"

text \<open>The request that looks the rollout target up (lines 250-254).\<close>

definition lookup :: "DeployOptions \<Rightarrow> event" where
  "lookup opts =
     (if IsUUID (Rollout opts) then GetByUUIDs [Rollout opts] else GetByNames [Rollout opts])"

text \<open>The item of the process tree (lines 243-275): retire the old instance.\<close>

definition draining :: "deploy_env \<Rightarrow> DeployOptions \<Rightarrow> event list \<Rightarrow>
    error option \<times> event list" where
  "draining env opts tr =
     (case call env tr (lookup opts) of
        (Inl err, tr1) \<Rightarrow> (Some (Errorf ''could not retrieve old instance'' err), tr1)
      | (Inr oldInsts, tr1) \<Rightarrow>
          if length oldInsts \<noteq> 1 then
            (Some (New (''expected 1 instance, got '' @ show_nat (length oldInsts))), tr1)
          else
            (case call env tr1 (StopByUUIDs (Milliseconds Minute) [UUID (oldInsts ! 0)]) of
               (Inl err, tr2) \<Rightarrow> (Some (Errorf ''could not stop the old instance'' err), tr2)
             | (Inr x, tr2) \<Rightarrow>
                 (case call env (tr2 @ [Sleep Minute]) (DeleteByUUIDs [UUID (oldInsts ! 0)]) of
                    (Inl err, tr3) \<Rightarrow>
                      (Some (Errorf ''could not remove the old instance'' err), tr3)
                  | (Inr y, tr3) \<Rightarrow> (None, tr3))))"

text \<open>
  Modelled from the spec: the package \<open>processtree\<close> is not among the sources. The spec has
  the rollout executed as a single sequential unit of work that fails fast on any step's
  error: \<open>Start\<close> runs the one item of the tree and returns its error.
\<close>

definition Start :: "(event list \<Rightarrow> error option \<times> event list) \<Rightarrow> event list \<Rightarrow>
    error option \<times> event list" where
  "Start item tr = item tr"

text \<open>Lines 288-293: the output. Taking \<open>sgs[0]\<close> of no service group panics.\<close>

definition print_result :: "deploy_env \<Rightarrow> DeployOptions \<Rightarrow> GetResponseItem list \<Rightarrow>
    ServiceGroup list \<Rightarrow> event list \<Rightarrow> result \<times> event list" where
  "print_result env opts insts sgs tr =
     (if length insts = 1 \<and> Output_d opts = [] then
        (if length sgs = 0 then (Panicked ''index out of range [0] with length 0'', tr)
         else (Returned None, tr @ [PrettyPrint]))
      else (Returned (PrintInstances env (Output_d opts) insts), tr @ [Print (Output_d opts)]))"

text \<open>\<open>DeployOptions.Run\<close>.\<close>

definition deploy_Run :: "deploy_env \<Rightarrow> DeployOptions \<Rightarrow> string list \<Rightarrow>
    result \<times> event list" where
  "deploy_Run env opts args =
     (case deploy_new env opts args of
        Inl (err, tr) \<Rightarrow> (Returned (Some err), tr)
      | Inr (opts1, insts, sgs, tr) \<Rightarrow>
          if Rollout opts1 \<noteq> [] then
            (case NewProcessTree env of
               Some err \<Rightarrow> (Returned None, tr)
             | None \<Rightarrow>
                 (case Start (draining env opts1) tr of
                    (Some err, tr1) \<Rightarrow>
                      (Returned (Some (Errorf ''could not start the process tree'' err)), tr1)
                  | (None, tr1) \<Rightarrow> print_result env opts1 insts sgs tr1))
          else print_result env opts1 insts sgs tr)"

section \<open>Sample collaborators and inputs\<close>

definition uuid1 :: string where
  "uuid1 = ''11111111-1111-1111-1111-111111111111''"

definition uuid2 :: string where
  "uuid2 = ''22222222-2222-2222-2222-222222222222''"

text \<open>A service where every request succeeds and that lists one instance.\<close>

definition env_ok :: cloud_env where
  "env_ok = \<lparr>GetKraftCloudAuthConfig = (\<lambda>t. Inr t),
             remote = (\<lambda>tr ev. Inr [\<lparr>UUID = uuid1\<rparr>])\<rparr>"

text \<open>A service that lists one instance and fails every other request.\<close>

definition env_failing :: cloud_env where
  "env_failing = \<lparr>GetKraftCloudAuthConfig = (\<lambda>t. Inr t),
     remote = (\<lambda>tr ev. case ev of List \<Rightarrow> Inr [\<lparr>UUID = uuid1\<rparr>]
                                 | _ \<Rightarrow> Inl (New ''remote failure''))\<rparr>"

text \<open>A service that fails requests by name and accepts all others.\<close>

definition env_names_fail :: cloud_env where
  "env_names_fail = \<lparr>GetKraftCloudAuthConfig = (\<lambda>t. Inr t),
     remote = (\<lambda>tr ev. case ev of StopByNames t ns \<Rightarrow> Inl (New ''remote failure'')
                                 | DeleteByNames ns \<Rightarrow> Inl (New ''remote failure'')
                                 | _ \<Rightarrow> Inr [])\<rparr>"

definition stop_opts :: StopOptions where
  "stop_opts = \<lparr>DrainTimeout = 1000000000, Output = ''table'', All = False,
                Metro = ''fra0'', Token = ''secret''\<rparr>"

definition remove_opts :: RemoveOptions where
  "remove_opts = \<lparr>Output_rm = ''table'', All_rm = False, metro = ''fra0'', token = ''secret''\<rparr>"

definition volume_opts :: VolumeRemoveOptions where
  "volume_opts = \<lparr>metro_vol = ''fra0'', token_vol = ''secret''\<rparr>"

section \<open>Vocabulary for the dispatcher's paths\<close>

text \<open>The request the per-item loop of the stop command issues for one argument.\<close>

definition stop_request :: "int \<Rightarrow> string \<Rightarrow> event" where
  "stop_request timeout arg =
     (if IsUUID arg then StopByUUIDs timeout [arg] else StopByNames timeout [arg])"

text \<open>The request the per-item loop of the instance remove command issues for one argument.\<close>

definition remove_request :: "string \<Rightarrow> event" where
  "remove_request arg = (if IsUUID arg then DeleteByUUIDs [arg] else DeleteByNames [arg])"

text \<open>
  The shape the two per-item loops share: issue the request of each argument in turn and
  return at the first failure, wrapped with the message and the argument.
\<close>

fun each_item :: "(event list \<Rightarrow> event \<Rightarrow> error + 'b) \<Rightarrow> (string \<Rightarrow> event) \<Rightarrow> string \<Rightarrow>
    string list \<Rightarrow> event list \<Rightarrow> error option \<times> event list" where
  "each_item rem req msg [] tr = (None, tr)"
| "each_item rem req msg (arg # args) tr =
     (case rem tr (req arg) of
        Inl err \<Rightarrow> (Some (Errorf (msg @ arg) err), tr @ [req arg])
      | Inr _ \<Rightarrow> each_item rem req msg args (tr @ [req arg]))"

text \<open>
  What a fail-fast pass over the arguments leaves behind: either every request was issued
  in input order and answered, and no error is returned; or the request of argument \<open>k\<close>
  was the first to fail, the requests of the arguments up to and including \<open>k\<close> were
  issued and no other, and the error returned wraps that failure and names argument \<open>k\<close>.
  Each request is answered knowing the requests before it.
\<close>

definition fail_fast_outcome :: "(event list \<Rightarrow> event \<Rightarrow> error + 'b) \<Rightarrow> (string \<Rightarrow> event) \<Rightarrow>
    string \<Rightarrow> string list \<Rightarrow> error option \<times> event list \<Rightarrow> bool" where
  "fail_fast_outcome rem req msg args res =
     (case res of (r, tr) \<Rightarrow>
        (r = None \<and> tr = map req args \<and>
           (\<forall>j<length args. \<exists>x. rem (map req (take j args)) (req (args ! j)) = Inr x))
      \<or> (\<exists>k<length args. \<exists>e. r = Some (Errorf (msg @ args ! k) e) \<and>
           tr = map req (take (Suc k) args) \<and>
           rem (map req (take k args)) (req (args ! k)) = Inl e \<and>
           (\<forall>j<k. \<exists>x. rem (map req (take j args)) (req (args ! j)) = Inr x)))"

section \<open>Vocabulary and samples for the deploy command\<close>

text \<open>The requests that stop an instance, those that delete a resource, and a successful
  deploy operation.\<close>

definition is_stop :: "event \<Rightarrow> bool" where
  "is_stop ev = (case ev of StopByUUIDs t us \<Rightarrow> True | StopByNames t ns \<Rightarrow> True | _ \<Rightarrow> False)"

definition is_delete :: "event \<Rightarrow> bool" where
  "is_delete ev =
     (case ev of DeleteByUUIDs us \<Rightarrow> True | DeleteByNames ns \<Rightarrow> True
               | DeleteByUUID u \<Rightarrow> True | DeleteByName n \<Rightarrow> True | _ \<Rightarrow> False)"

definition is_created :: "event \<Rightarrow> bool" where
  "is_created ev = (case ev of Deployed n ok \<Rightarrow> ok | _ \<Rightarrow> False)"

text \<open>A request that retires an instance: a stop or a delete.\<close>

definition retires :: "event \<Rightarrow> bool" where
  "retires ev = (is_stop ev \<or> is_delete ev)"

text \<open>
  The order of a rollout in a trace: every stop and every delete request comes after a
  successful deploy operation, and every delete request has a stop request before it and
  none after it.
\<close>

definition rollout_ordered :: "event list \<Rightarrow> bool" where
  "rollout_ordered tr =
     (\<forall>i \<in> {0..<length tr}.
        (retires (tr ! i) \<longrightarrow> list_ex is_created (take i tr)) \<and>
        (is_delete (tr ! i) \<longrightarrow>
           list_ex is_stop (take i tr) \<and> \<not> list_ex is_stop (drop (Suc i) tr)))"

text \<open>Sample deployers: two that are capable, one that declines with an error and one
  that declines without.\<close>

definition deployer_kraftfile :: deployer where
  "deployer_kraftfile = \<lparr>Name = ''kraftfile-runtime'', String = ''run the cwd with Kraftfile'',
     Deployable = (\<lambda>opts args. (True, None)),
     Deploy = (\<lambda>opts args. Inr ([\<lparr>UUID = uuid2\<rparr>], [''web'']))\<rparr>"

definition deployer_compose :: deployer where
  "deployer_compose = \<lparr>Name = ''compose'', String = ''run the Compose project'',
     Deployable = (\<lambda>opts args. (True, None)),
     Deploy = (\<lambda>opts args. Inr ([\<lparr>UUID = uuid2\<rparr>], [''web'']))\<rparr>"

definition deployer_image :: deployer where
  "deployer_image = \<lparr>Name = ''image-name'', String = ''run an image'',
     Deployable = (\<lambda>opts args. (False, Some (New ''no such file''))),
     Deploy = (\<lambda>opts args. Inl (New ''unreachable''))\<rparr>"

definition deployer_silent :: deployer where
  "deployer_silent = \<lparr>Name = ''package'', String = ''run a package'',
     Deployable = (\<lambda>opts args. (False, None)),
     Deploy = (\<lambda>opts args. Inl (New ''unreachable''))\<rparr>"

text \<open>Sample collaborators of the deploy command: credentials load, no argument is a
  directory, the prompt selects the last candidate, the output succeeds.\<close>

definition deploy_env_of :: "deployer list \<Rightarrow> bool \<Rightarrow> error option \<Rightarrow>
    (event list \<Rightarrow> event \<Rightarrow> error + GetResponseItem list) \<Rightarrow> deploy_env" where
  "deploy_env_of ds np tree rem =
     \<lparr>GetKraftCloudAuthConfig = (\<lambda>t. Inr t), remote = rem,
      IsDir = (\<lambda>p. False), Abs = (\<lambda>p. Inr p), Getwd = Inr ''/srv/app'',
      deployers = ds, NoPrompt = np, Select = (\<lambda>q cs. Inr (last cs)),
      NewProcessTree = tree, PrintInstances = (\<lambda>out insts. None)\<rparr>"

definition deploy_opts :: DeployOptions where
  "deploy_opts = \<lparr>DeployAs = [], Metro_d = ''fra0'', Name_d = [], NoStart = False,
     Output_d = [], Rollout = ''old-app'', Timeout = 0, Token_d = ''secret'', Workdir = []\<rparr>"

text \<open>Services for the rollout: the first answers every request with one instance and fails
  the batch delete by UUID, the second answers every request with two instances.\<close>

definition remote_one :: "event list \<Rightarrow> event \<Rightarrow> error + GetResponseItem list" where
  "remote_one tr ev = (case ev of DeleteByUUIDs us \<Rightarrow> Inl (New ''remote failure'')
                              | _ \<Rightarrow> Inr [\<lparr>UUID = uuid1\<rparr>])"

definition remote_two :: "event list \<Rightarrow> event \<Rightarrow> error + GetResponseItem list" where
  "remote_two tr ev = Inr [\<lparr>UUID = uuid1\<rparr>, \<lparr>UUID = uuid2\<rparr>]"

text \<open>The deployers the probing loop visits: all of them, or those named by \<open>--as\<close>.\<close>

definition probed :: "DeployOptions \<Rightarrow> deployer list \<Rightarrow> deployer list" where
  "probed opts ds = filter (\<lambda>d. \<not> (DeployAs opts \<noteq> [] \<and> Name d \<noteq> DeployAs opts)) ds"

text \<open>The visited deployers whose capability check says capable and returns no error, in
  registration order.\<close>

definition candidates_of :: "deployer list \<Rightarrow> DeployOptions \<Rightarrow> string list \<Rightarrow> deployer list" where
  "candidates_of ds opts args =
     filter (\<lambda>d. fst (Deployable d opts args) \<and> snd (Deployable d opts args) = None)
       (probed opts ds)"

text \<open>The errors that the capability checks of the visited deployers return, in
  registration order.\<close>

definition decline_errors :: "deployer list \<Rightarrow> DeployOptions \<Rightarrow> string list \<Rightarrow> error list" where
  "decline_errors ds opts args =
     List.map_filter (\<lambda>d. snd (Deployable d opts args)) (probed opts ds)"



text \<open>The selection prompts and the deploy operations of a trace.\<close>

definition is_prompt :: "event \<Rightarrow> bool" where
  "is_prompt ev = (case ev of Prompt q ls \<Rightarrow> True | _ \<Rightarrow> False)"

definition is_deploy :: "event \<Rightarrow> bool" where
  "is_deploy ev = (case ev of Deployed n ok \<Rightarrow> True | _ \<Rightarrow> False)"


section \<open>Properties of the stop command\<close>

lemma IsUUID_uuid1: "IsUUID uuid1"
  unfolding uuid1_def by code_simp

lemma IsUUID_uuid2: "IsUUID uuid2"
  unfolding uuid2_def by code_simp

lemma not_IsUUID_my_app: "\<not> IsUUID ''my-app''"
  by code_simp

text \<open>
  C8: a stop invocation whose drain timeout is strictly below one millisecond is rejected
  with a precondition error (the credentials error when the credentials cannot be loaded,
  the timeout error otherwise) and its trace is empty: no list, stop or delete request is
  issued, whatever the targets and the other options are.
\<close>

theorem stop_sub_millisecond_rejected:
  assumes "DrainTimeout opts < Millisecond"
  shows "stop_Run env opts args =
    (Some (case GetKraftCloudAuthConfig env (Token opts) of
             Inl err \<Rightarrow> Errorf ''could not retrieve credentials'' err
           | Inr auth \<Rightarrow> New ''drain timeout must be at least 1ms''), [])"
  using assms by (simp add: stop_Run_def split: sum.split)

theorem stop_sub_millisecond_rejected_witness:
  "DrainTimeout (stop_opts\<lparr>DrainTimeout := 999999, All := True\<rparr>) < Millisecond \<and>
   stop_Run env_ok (stop_opts\<lparr>DrainTimeout := 999999, All := True\<rparr>) [uuid1, ''my-app''] =
     (Some (New ''drain timeout must be at least 1ms''), [])"
  using stop_sub_millisecond_rejected
    [of "stop_opts\<lparr>DrainTimeout := 999999, All := True\<rparr>" env_ok "[uuid1, ''my-app'']"]
  by (simp add: Millisecond_def stop_opts_def env_ok_def)

text \<open>
  C10: the drain-timeout option has no default other than the zero duration, so an
  invocation that leaves the flag out, whatever the other flags (the operate-on-all flag
  included) and the arguments are, fails with the sub-minimum timeout error once the
  credentials are loaded, and issues no request.
\<close>

theorem stop_omitted_drain_timeout_rejected:
  assumes "GetKraftCloudAuthConfig env t = Inr auth"
  shows "DrainTimeout StopOptions_default = 0 \<and>
    stop_Run env (StopOptions_default\<lparr>Output := out, All := a, Metro := m, Token := t\<rparr>) args =
      (Some (New ''drain timeout must be at least 1ms''), [])"
  using assms by (simp add: stop_Run_def StopOptions_default_def Millisecond_def)

theorem stop_omitted_drain_timeout_rejected_witness:
  "GetKraftCloudAuthConfig env_ok ''secret'' = Inr ''secret'' \<and>
   stop_Run env_ok (StopOptions_default\<lparr>Output := ''table'', All := True, Metro := ''fra0'',
       Token := ''secret''\<rparr>) [] =
     (Some (New ''drain timeout must be at least 1ms''), [])"
  using stop_omitted_drain_timeout_rejected [where env = env_ok and t = "''secret''"
      and auth = "''secret''" and out = "''table''" and a = True and m = "''fra0''" and args = "[]"]
  by (simp add: env_ok_def)

section \<open>Properties of the dispatcher\<close>

lemma classify_flags:
  "classify (u, n) args = (u \<and> list_all IsUUID args, n \<and> list_all (\<lambda>a. \<not> IsUUID a) args)"
  by (induction args arbitrary: u n) (auto simp: Let_def)

lemma stop_each_each_item:
  "stop_each env t args tr =
     each_item (remote env) (stop_request t) ''could not stop instance '' args tr"
  by (induction args arbitrary: tr) (auto simp: call_def stop_request_def split: sum.splits)

lemma remove_each_each_item:
  "remove_each env args tr =
     each_item (remote env) remove_request ''could not remove instance '' args tr"
  by (induction args arbitrary: tr) (auto simp: call_def remove_request_def split: sum.splits)

lemma each_item_outcome:
  "each_item rem req msg args tr = (r, tr') \<Longrightarrow>
     (r = None \<and> tr' = tr @ map req args \<and>
        (\<forall>j<length args. \<exists>x. rem (tr @ map req (take j args)) (req (args ! j)) = Inr x))
   \<or> (\<exists>k<length args. \<exists>e. r = Some (Errorf (msg @ args ! k) e) \<and>
        tr' = tr @ map req (take (Suc k) args) \<and>
        rem (tr @ map req (take k args)) (req (args ! k)) = Inl e \<and>
        (\<forall>j<k. \<exists>x. rem (tr @ map req (take j args)) (req (args ! j)) = Inr x))"
proof (induction args arbitrary: tr)
  case Nil
  then show ?case by simp
next
  case (Cons a as)
  show ?case
  proof (cases "rem tr (req a)")
    case (Inl e)
    with Cons.prems have "r = Some (Errorf (msg @ a) e)" "tr' = tr @ [req a]" by auto
    with Inl show ?thesis by (intro disjI2 exI [of _ 0] exI [of _ e]) simp
  next
    case (Inr x)
    with Cons.prems have run: "each_item rem req msg as (tr @ [req a]) = (r, tr')" by simp
    from Cons.IH [OF run] show ?thesis
    proof
      assume ok: "r = None \<and> tr' = (tr @ [req a]) @ map req as \<and>
        (\<forall>j<length as. \<exists>x. rem ((tr @ [req a]) @ map req (take j as)) (req (as ! j)) = Inr x)"
      then have "\<forall>j<length (a # as). \<exists>x. rem (tr @ map req (take j (a # as))) (req ((a # as) ! j)) = Inr x"
        using Inr by (simp add: All_less_Suc2)
      with ok show ?thesis by simp
    next
      assume "\<exists>k<length as. \<exists>e. r = Some (Errorf (msg @ as ! k) e) \<and>
        tr' = (tr @ [req a]) @ map req (take (Suc k) as) \<and>
        rem ((tr @ [req a]) @ map req (take k as)) (req (as ! k)) = Inl e \<and>
        (\<forall>j<k. \<exists>x. rem ((tr @ [req a]) @ map req (take j as)) (req (as ! j)) = Inr x)"
      then obtain k e where k: "k < length as" "r = Some (Errorf (msg @ as ! k) e)"
        "tr' = (tr @ [req a]) @ map req (take (Suc k) as)"
        "rem ((tr @ [req a]) @ map req (take k as)) (req (as ! k)) = Inl e"
        "\<forall>j<k. \<exists>x. rem ((tr @ [req a]) @ map req (take j as)) (req (as ! j)) = Inr x"
        by blast
      have "\<forall>j<Suc k. \<exists>x. rem (tr @ map req (take j (a # as))) (req ((a # as) ! j)) = Inr x"
        using k(5) Inr by (simp add: All_less_Suc2)
      with k show ?thesis
        by (intro disjI2 exI [of _ "Suc k"] exI [of _ e]) simp
    qed
  qed
qed

lemma classify_mixed:
  assumes "list_ex IsUUID args" and "list_ex (\<lambda>a. \<not> IsUUID a) args"
  shows "classify (True, True) args = (False, False)"
  using assms by (auto simp: classify_flags list_all_iff list_ex_iff)

lemma each_item_fail_fast:
  "fail_fast_outcome rem req msg args (each_item rem req msg args [])"
proof -
  obtain r tr where run: "each_item rem req msg args [] = (r, tr)"
    by (cases "each_item rem req msg args []")
  from each_item_outcome [OF run] show ?thesis
    by (simp add: fail_fast_outcome_def run)
qed

text \<open>
  C1 (amended): for a mixed target set (at least one UUID and at least one name) the stop
  and the instance remove commands issue one request per target in input order and stop at
  the first failure. When no request fails, exactly N requests are issued and nil is
  returned. When the request of target \<open>k\<close> is the first to fail, exactly the requests of
  the targets up to \<open>k\<close> are issued, the later targets are not attempted, and the returned
  error is that single failure wrapped with the name of target \<open>k\<close>.
\<close>

theorem per_item_path_fail_fast:
  assumes "list_ex IsUUID args" and "list_ex (\<lambda>a. \<not> IsUUID a) args"
  shows "(GetKraftCloudAuthConfig env (Token opts) = Inr auth \<and>
          Millisecond \<le> DrainTimeout opts \<and> \<not> All opts \<longrightarrow>
            fail_fast_outcome (remote env) (stop_request (DrainTimeout opts div Millisecond))
              ''could not stop instance '' args (stop_Run env opts args)) \<and>
         (GetKraftCloudAuthConfig env' (token ropts) = Inr auth' \<and> \<not> All_rm ropts \<longrightarrow>
            fail_fast_outcome (remote env') remove_request
              ''could not remove instance '' args (remove_Run env' ropts args))"
  using assms
  by (simp add: stop_Run_def remove_Run_def classify_mixed stop_each_each_item
      remove_each_each_item each_item_fail_fast)

text \<open>
  C1 as stated fails: on the mixed set of a name and a UUID where the request by name
  fails, one request is issued, not two, although the request by UUID would have
  succeeded.
\<close>

theorem per_item_path_stops_at_first_failure:
  "IsUUID uuid1 \<and> \<not> IsUUID ''my-app'' \<and>
   stop_Run env_names_fail stop_opts [''my-app'', uuid1] =
     (Some (Errorf ''could not stop instance my-app'' (New ''remote failure'')),
      [StopByNames 1000 [''my-app'']]) \<and>
   remote env_names_fail [StopByNames 1000 [''my-app'']] (StopByUUIDs 1000 [uuid1]) = Inr [] \<and>
   remove_Run env_names_fail remove_opts [''my-app'', uuid1] =
     (Some (Errorf ''could not remove instance my-app'' (New ''remote failure'')),
      [DeleteByNames [''my-app'']])"
  by (simp add: stop_Run_def remove_Run_def env_names_fail_def stop_opts_def remove_opts_def
      Millisecond_def call_def IsUUID_uuid1 not_IsUUID_my_app)

theorem per_item_path_fail_fast_witness:
  "list_ex IsUUID [uuid1, ''my-app'', uuid2] \<and>
   list_ex (\<lambda>a. \<not> IsUUID a) [uuid1, ''my-app'', uuid2] \<and>
   GetKraftCloudAuthConfig env_names_fail (Token stop_opts) = Inr ''secret'' \<and>
   Millisecond \<le> DrainTimeout stop_opts \<and> \<not> All stop_opts \<and>
   GetKraftCloudAuthConfig env_names_fail (token remove_opts) = Inr ''secret'' \<and>
   \<not> All_rm remove_opts \<and>
   stop_Run env_names_fail stop_opts [uuid1, ''my-app'', uuid2] =
     (Some (Errorf ''could not stop instance my-app'' (New ''remote failure'')),
      [StopByUUIDs 1000 [uuid1], StopByNames 1000 [''my-app'']]) \<and>
   fail_fast_outcome (remote env_names_fail) (stop_request 1000) ''could not stop instance ''
     [uuid1, ''my-app'', uuid2]
     (Some (Errorf ''could not stop instance my-app'' (New ''remote failure'')),
      [StopByUUIDs 1000 [uuid1], StopByNames 1000 [''my-app'']]) \<and>
   remove_Run env_names_fail remove_opts [uuid1, ''my-app'', uuid2] =
     (Some (Errorf ''could not remove instance my-app'' (New ''remote failure'')),
      [DeleteByUUIDs [uuid1], DeleteByNames [''my-app'']]) \<and>
   fail_fast_outcome (remote env_names_fail) remove_request ''could not remove instance ''
     [uuid1, ''my-app'', uuid2]
     (Some (Errorf ''could not remove instance my-app'' (New ''remote failure'')),
      [DeleteByUUIDs [uuid1], DeleteByNames [''my-app'']])"
proof -
  have hyps: "list_ex IsUUID [uuid1, ''my-app'', uuid2]"
    "list_ex (\<lambda>a. \<not> IsUUID a) [uuid1, ''my-app'', uuid2]"
    by (simp_all add: IsUUID_uuid1 not_IsUUID_my_app)
  have pre: "GetKraftCloudAuthConfig env_names_fail (Token stop_opts) = Inr ''secret''"
    "Millisecond \<le> DrainTimeout stop_opts" "\<not> All stop_opts"
    "GetKraftCloudAuthConfig env_names_fail (token remove_opts) = Inr ''secret''"
    "\<not> All_rm remove_opts" "DrainTimeout stop_opts div Millisecond = 1000"
    by (simp_all add: env_names_fail_def stop_opts_def remove_opts_def Millisecond_def)
  have stop: "stop_Run env_names_fail stop_opts [uuid1, ''my-app'', uuid2] =
     (Some (Errorf ''could not stop instance my-app'' (New ''remote failure'')),
      [StopByUUIDs 1000 [uuid1], StopByNames 1000 [''my-app'']])"
    by (simp add: stop_Run_def env_names_fail_def stop_opts_def Millisecond_def call_def
        IsUUID_uuid1 IsUUID_uuid2 not_IsUUID_my_app)
  have remove: "remove_Run env_names_fail remove_opts [uuid1, ''my-app'', uuid2] =
     (Some (Errorf ''could not remove instance my-app'' (New ''remote failure'')),
      [DeleteByUUIDs [uuid1], DeleteByNames [''my-app'']])"
    by (simp add: remove_Run_def env_names_fail_def remove_opts_def call_def
        IsUUID_uuid1 IsUUID_uuid2 not_IsUUID_my_app)
  from per_item_path_fail_fast [OF hyps, where env = env_names_fail and opts = stop_opts
      and auth = "''secret''" and env' = env_names_fail and ropts = remove_opts
      and auth' = "''secret''"] pre stop remove hyps
  show ?thesis by simp
qed

lemma show_nat_1: "show_nat (Suc 0) = ''1''"
  by (simp add: show_nat.simps digit_def)

lemma classify_all_UUIDs:
  "list_all IsUUID args \<Longrightarrow> fst (classify (True, True) args)"
  by (simp add: classify_flags)

lemma classify_all_names:
  "args \<noteq> [] \<Longrightarrow> list_all (\<lambda>a. \<not> IsUUID a) args \<Longrightarrow> classify (True, True) args = (False, True)"
  by (cases args) (auto simp: classify_flags)

text \<open>
  C4 (amended): in the stop and the instance remove commands, a non-empty target set whose
  targets are all UUIDs leads to exactly one request, the batch request by UUID carrying the
  whole list, and a non-empty set whose targets are all names to exactly one batch request
  by name; a failure of the batch request is returned wrapped. The statement is about
  these two commands only.
\<close>

theorem homogeneous_sets_one_batch_call:
  assumes "us \<noteq> []" and "list_all IsUUID us"
    and "ns \<noteq> []" and "list_all (\<lambda>a. \<not> IsUUID a) ns"
  shows "(GetKraftCloudAuthConfig env (Token opts) = Inr auth \<and>
          Millisecond \<le> DrainTimeout opts \<and> \<not> All opts \<longrightarrow>
            stop_Run env opts us =
              (case remote env [] (StopByUUIDs (DrainTimeout opts div Millisecond) us) of
                 Inl err \<Rightarrow> Some (Errorf (''stopping '' @ show_nat (length us) @ '' instance(s)'') err)
               | Inr x \<Rightarrow> None,
               [StopByUUIDs (DrainTimeout opts div Millisecond) us]) \<and>
            stop_Run env opts ns =
              (case remote env [] (StopByNames (DrainTimeout opts div Millisecond) ns) of
                 Inl err \<Rightarrow> Some (Errorf (''stopping '' @ show_nat (length ns) @ '' instance(s)'') err)
               | Inr x \<Rightarrow> None,
               [StopByNames (DrainTimeout opts div Millisecond) ns])) \<and>
         (GetKraftCloudAuthConfig env' (token ropts) = Inr auth' \<and> \<not> All_rm ropts \<longrightarrow>
            remove_Run env' ropts us =
              (case remote env' [] (DeleteByUUIDs us) of
                 Inl err \<Rightarrow> Some (Errorf (''removing '' @ show_nat (length us) @ '' instance(s)'') err)
               | Inr x \<Rightarrow> None,
               [DeleteByUUIDs us]) \<and>
            remove_Run env' ropts ns =
              (case remote env' [] (DeleteByNames ns) of
                 Inl err \<Rightarrow> Some (Errorf (''removing '' @ show_nat (length ns) @ '' instance(s)'') err)
               | Inr x \<Rightarrow> None,
               [DeleteByNames ns]))"
proof -
  have u: "classify (True, True) us = (True, list_all (\<lambda>a. \<not> IsUUID a) us)"
    using assms(2) by (simp add: classify_flags)
  have n: "classify (True, True) ns = (False, True)"
    using assms(3,4) by (rule classify_all_names)
  show ?thesis
    by (simp add: stop_Run_def remove_Run_def u n call_def split: sum.split)
qed

text \<open>
  C4 as stated fails for the volume remove command: on two UUIDs, with a service that
  accepts every request, it issues two per-item requests and no batch request.
\<close>

theorem volume_remove_never_batches:
  "IsUUID uuid1 \<and> IsUUID uuid2 \<and>
   volume_remove_Run env_ok volume_opts [uuid1, uuid2] =
     (None, [DeleteByUUID uuid1, Fprintln uuid1, DeleteByUUID uuid2, Fprintln uuid2])"
  by (simp add: volume_remove_Run_def env_ok_def volume_opts_def call_def
      IsUUID_uuid1 IsUUID_uuid2)

theorem homogeneous_sets_one_batch_call_witness:
  "[uuid1, uuid2] \<noteq> [] \<and> list_all IsUUID [uuid1, uuid2] \<and>
   [''my-app''] \<noteq> [] \<and> list_all (\<lambda>a. \<not> IsUUID a) [''my-app''] \<and>
   GetKraftCloudAuthConfig env_names_fail (Token stop_opts) = Inr ''secret'' \<and>
   Millisecond \<le> DrainTimeout stop_opts \<and> \<not> All stop_opts \<and>
   GetKraftCloudAuthConfig env_names_fail (token remove_opts) = Inr ''secret'' \<and>
   \<not> All_rm remove_opts \<and>
   stop_Run env_names_fail stop_opts [uuid1, uuid2] = (None, [StopByUUIDs 1000 [uuid1, uuid2]]) \<and>
   stop_Run env_names_fail stop_opts [''my-app''] =
     (Some (Errorf ''stopping 1 instance(s)'' (New ''remote failure'')),
      [StopByNames 1000 [''my-app'']]) \<and>
   remove_Run env_names_fail remove_opts [uuid1, uuid2] = (None, [DeleteByUUIDs [uuid1, uuid2]]) \<and>
   remove_Run env_names_fail remove_opts [''my-app''] =
     (Some (Errorf ''removing 1 instance(s)'' (New ''remote failure'')),
      [DeleteByNames [''my-app'']])"
proof -
  have hyps: "[uuid1, uuid2] \<noteq> []" "list_all IsUUID [uuid1, uuid2]"
    "[''my-app''] \<noteq> []" "list_all (\<lambda>a. \<not> IsUUID a) [''my-app'']"
    by (simp_all add: IsUUID_uuid1 IsUUID_uuid2 not_IsUUID_my_app)
  have pre: "GetKraftCloudAuthConfig env_names_fail (Token stop_opts) = Inr ''secret''"
    "Millisecond \<le> DrainTimeout stop_opts" "\<not> All stop_opts"
    "GetKraftCloudAuthConfig env_names_fail (token remove_opts) = Inr ''secret''"
    "\<not> All_rm remove_opts" "DrainTimeout stop_opts div Millisecond = 1000"
    by (simp_all add: env_names_fail_def stop_opts_def remove_opts_def Millisecond_def)
  have answers: "remote env_names_fail [] (StopByUUIDs 1000 [uuid1, uuid2]) = Inr []"
    "remote env_names_fail [] (StopByNames 1000 [''my-app'']) = Inl (New ''remote failure'')"
    "remote env_names_fail [] (DeleteByUUIDs [uuid1, uuid2]) = Inr []"
    "remote env_names_fail [] (DeleteByNames [''my-app'']) = Inl (New ''remote failure'')"
    by (simp_all add: env_names_fail_def)
  from homogeneous_sets_one_batch_call [OF hyps, where env = env_names_fail and opts = stop_opts
      and auth = "''secret''" and env' = env_names_fail and ropts = remove_opts
      and auth' = "''secret''"] pre answers hyps
  show ?thesis by (simp add: show_nat_1)
qed

text \<open>
  C2: on the operate-on-all path of the stop command a failed batch request by UUID is
  not returned: the command returns nil. The instance remove command returns the wrapped
  failure on the same path.
\<close>

theorem stop_all_swallows_batch_failure:
  "stop_Run env_failing (stop_opts\<lparr>All := True\<rparr>) [] =
     (None, [List, StopByUUIDs 1000 [uuid1]]) \<and>
   remote env_failing [List] (StopByUUIDs 1000 [uuid1]) = Inl (New ''remote failure'') \<and>
   remove_Run env_failing (remove_opts\<lparr>All_rm := True\<rparr>) [] =
     (Some (Errorf ''removing 1 instance(s)'' (New ''remote failure'')),
      [List, DeleteByUUIDs [uuid1]])"
  by (simp add: stop_Run_def remove_Run_def env_failing_def stop_opts_def remove_opts_def
      Millisecond_def call_def show_nat_1)

section \<open>Properties of the deploy command\<close>

lemma retires_simps [simp]:
  "\<not> retires List" "retires (StopByUUIDs t us)" "retires (StopByNames t us)"
  "retires (DeleteByUUIDs us)" "retires (DeleteByNames us)"
  "\<not> retires (GetByUUIDs us)" "\<not> retires (GetByNames us)"
  "retires (DeleteByUUID u)" "retires (DeleteByName u)" "\<not> retires (Fprintln u)"
  "\<not> retires (Prompt q ls)" "\<not> retires (Deployed n ok)" "\<not> retires (Sleep d)"
  "\<not> retires PrettyPrint" "\<not> retires (Print out)"
  by (simp_all add: retires_def is_stop_def is_delete_def)

lemma is_stop_simps [simp]:
  "\<not> is_stop List" "is_stop (StopByUUIDs t us)" "is_stop (StopByNames t us)"
  "\<not> is_stop (DeleteByUUIDs us)" "\<not> is_stop (DeleteByNames us)"
  "\<not> is_stop (GetByUUIDs us)" "\<not> is_stop (GetByNames us)"
  "\<not> is_stop (DeleteByUUID u)" "\<not> is_stop (DeleteByName u)" "\<not> is_stop (Fprintln u)"
  "\<not> is_stop (Prompt q ls)" "\<not> is_stop (Deployed n ok)" "\<not> is_stop (Sleep d)"
  "\<not> is_stop PrettyPrint" "\<not> is_stop (Print out)"
  by (simp_all add: is_stop_def)

lemma is_delete_simps [simp]:
  "\<not> is_delete List" "\<not> is_delete (StopByUUIDs t us)" "\<not> is_delete (StopByNames t us)"
  "is_delete (DeleteByUUIDs us)" "is_delete (DeleteByNames us)"
  "\<not> is_delete (GetByUUIDs us)" "\<not> is_delete (GetByNames us)"
  "is_delete (DeleteByUUID u)" "is_delete (DeleteByName u)" "\<not> is_delete (Fprintln u)"
  "\<not> is_delete (Prompt q ls)" "\<not> is_delete (Deployed n ok)" "\<not> is_delete (Sleep d)"
  "\<not> is_delete PrettyPrint" "\<not> is_delete (Print out)"
  by (simp_all add: is_delete_def)

lemma is_created_simps [simp]:
  "\<not> is_created List" "\<not> is_created (StopByUUIDs t us)" "\<not> is_created (StopByNames t us)"
  "\<not> is_created (DeleteByUUIDs us)" "\<not> is_created (DeleteByNames us)"
  "\<not> is_created (GetByUUIDs us)" "\<not> is_created (GetByNames us)"
  "\<not> is_created (DeleteByUUID u)" "\<not> is_created (DeleteByName u)" "\<not> is_created (Fprintln u)"
  "\<not> is_created (Prompt q ls)" "is_created (Deployed n ok) = ok" "\<not> is_created (Sleep d)"
  "\<not> is_created PrettyPrint" "\<not> is_created (Print out)"
  by (simp_all add: is_created_def)

lemma lookup_quiet [simp]: "\<not> retires (lookup opts)" "\<not> is_stop (lookup opts)"
  "\<not> is_delete (lookup opts)" "\<not> is_created (lookup opts)"
  by (simp_all add: lookup_def)

lemma prepare_Inr:
  assumes "prepare env opts args = Inr (opts1, args1, tr)"
  shows "Rollout opts1 = Rollout opts \<and> DeployAs opts1 = DeployAs opts \<and>
         Output_d opts1 = Output_d opts \<and> (tr = [] \<or> tr = [GetByNames [Name_d opts]])"
  using assms
  by (auto simp: prepare_def call_def split: sum.splits if_splits prod.splits bool.splits)

lemma prepare_Inl:
  assumes "prepare env opts args = Inl (err, tr)"
  shows "tr = [] \<or> tr = [GetByNames [Name_d opts]]"
  using assms
  by (auto simp: prepare_def call_def split: sum.splits if_splits prod.splits bool.splits)

lemma resolve_trace:
  assumes "resolve env opts args tr = (r, tr1)"
  shows "tr1 = tr \<or> (\<exists>ls. tr1 = tr @ [Prompt question ls])"
  using assms
  by (auto simp: resolve_def split: prod.splits if_splits sum.splits)

lemma deploy_new_Inr:
  assumes "deploy_new env opts args = Inr (opts1, insts, sgs, tr)"
  shows "\<exists>args1 tr0 tr1 d. prepare env opts args = Inr (opts1, args1, tr0) \<and>
           resolve env opts1 args1 tr0 = (Inr d, tr1) \<and>
           Deploy d opts1 args1 = Inr (insts, sgs) \<and> tr = tr1 @ [Deployed (Name d) True]"
  using assms
  by (auto simp: deploy_new_def split: sum.splits prod.splits)

lemma deploy_new_Inr_trace:
  assumes "deploy_new env opts args = Inr (opts1, insts, sgs, tr)"
  shows "\<exists>pre n. tr = pre @ [Deployed n True] \<and> list_all (\<lambda>ev. \<not> retires ev) pre"
proof -
  from deploy_new_Inr [OF assms] obtain args1 tr0 tr1 d where
    p: "prepare env opts args = Inr (opts1, args1, tr0)" and
    r: "resolve env opts1 args1 tr0 = (Inr d, tr1)" and
    t: "tr = tr1 @ [Deployed (Name d) True]" by blast
  from prepare_Inr [OF p] have "list_all (\<lambda>ev. \<not> retires ev) tr0" by auto
  with resolve_trace [OF r] have "list_all (\<lambda>ev. \<not> retires ev) tr1" by auto
  with t show ?thesis by blast
qed

lemma deploy_new_Inr_opts:
  assumes "deploy_new env opts args = Inr (opts1, insts, sgs, tr)"
  shows "Rollout opts1 = Rollout opts" "Output_d opts1 = Output_d opts" "lookup opts1 = lookup opts"
  using deploy_new_Inr [OF assms] prepare_Inr by (auto simp: lookup_def dest!: prepare_Inr)

lemma deploy_new_Inl_trace:
  assumes "deploy_new env opts args = Inl (err, tr)"
  shows "list_all (\<lambda>ev. \<not> retires ev) tr"
proof (cases "prepare env opts args")
  case (Inl early)
  with assms have "prepare env opts args = Inl (err, tr)" by (simp add: deploy_new_def)
  from prepare_Inl [OF this] show ?thesis by auto
next
  case (Inr ok)
  obtain opts1 args1 tr0 where ok: "ok = (opts1, args1, tr0)" by (cases ok)
  obtain r tr1 where r: "resolve env opts1 args1 tr0 = (r, tr1)"
    by (cases "resolve env opts1 args1 tr0")
  from prepare_Inr [OF Inr [unfolded ok]] have q0: "list_all (\<lambda>ev. \<not> retires ev) tr0" by auto
  with resolve_trace [OF r] have q1: "list_all (\<lambda>ev. \<not> retires ev) tr1" by auto
  from assms Inr ok r have "tr = tr1 \<or> (\<exists>n. tr = tr1 @ [Deployed n False])"
    by (auto simp: deploy_new_def split: sum.splits prod.splits)
  with q1 show ?thesis by auto
qed

lemma rollout_ordered_quiet:
  assumes "list_all (\<lambda>ev. \<not> retires ev) tr"
  shows "rollout_ordered tr"
  using assms by (auto simp: rollout_ordered_def list_all_length retires_def)

lemma rollout_ordered_append:
  assumes quiet: "list_all (\<lambda>ev. \<not> retires ev) pre"
    and created: "list_ex is_created pre"
    and tail: "\<forall>m<length R. is_delete (R ! m) \<longrightarrow>
      list_ex is_stop (take m R) \<and> \<not> list_ex is_stop (drop (Suc m) R)"
  shows "rollout_ordered (pre @ R)"
  unfolding rollout_ordered_def
proof (intro ballI conjI impI)
  fix i assume i: "i \<in> {0..<length (pre @ R)}" and ret: "retires ((pre @ R) ! i)"
  have "\<not> i < length pre"
  proof
    assume "i < length pre"
    with quiet ret show False by (simp add: nth_append list_all_length)
  qed
  with created show "list_ex is_created (take i (pre @ R))" by simp
next
  fix i assume i: "i \<in> {0..<length (pre @ R)}" and del: "is_delete ((pre @ R) ! i)"
  have ge: "\<not> i < length pre"
  proof
    assume "i < length pre"
    with quiet del show False by (simp add: nth_append list_all_length retires_def)
  qed
  define m where "m = i - length pre"
  from ge i have m: "m < length R" "i = length pre + m" by (auto simp: m_def)
  from del m have "is_delete (R ! m)" by (simp add: nth_append)
  with tail m have t: "list_ex is_stop (take m R)" "\<not> list_ex is_stop (drop (Suc m) R)" by auto
  from t(1) m show "list_ex is_stop (take i (pre @ R))" by simp
  from t(2) m show "\<not> list_ex is_stop (drop (Suc i) (pre @ R))" by simp
qed

lemma print_result_trace:
  assumes "print_result env opts insts sgs tr = (r, tr1)"
  shows "tr1 = tr \<or> tr1 = tr @ [PrettyPrint] \<or> tr1 = tr @ [Print (Output_d opts)]"
  using assms by (auto simp: print_result_def split: if_splits)

lemma draining_trace:
  assumes "draining env opts tr = (r, tr1)"
  shows "(\<exists>e. r = Some e \<and> tr1 = tr @ [lookup opts]) \<or>
         (\<exists>e u. r = Some e \<and> tr1 = tr @ [lookup opts, StopByUUIDs (Milliseconds Minute) [u]]) \<or>
         (\<exists>u. tr1 = tr @ [lookup opts, StopByUUIDs (Milliseconds Minute) [u], Sleep Minute,
                  DeleteByUUIDs [u]])"
  using assms
  by (auto simp: draining_def call_def split: sum.splits if_splits)

lemma deploy_Run_tail:
  assumes "deploy_new env opts args = Inr (opts1, insts, sgs, tr)"
  shows "\<exists>R. snd (deploy_Run env opts args) = tr @ R \<and>
    (\<forall>m<length R. is_delete (R ! m) \<longrightarrow>
       list_ex is_stop (take m R) \<and> \<not> list_ex is_stop (drop (Suc m) R))"
proof (cases "Rollout opts1 \<noteq> [] \<and> NewProcessTree env = None")
  case False
  obtain r tr1 where p: "print_result env opts1 insts sgs tr = (r, tr1)"
    by (cases "print_result env opts1 insts sgs tr")
  from False assms p have "snd (deploy_Run env opts args) = tr \<or> snd (deploy_Run env opts args) = tr1"
    by (auto simp: deploy_Run_def split: option.splits)
  with print_result_trace [OF p]
  consider "snd (deploy_Run env opts args) = tr @ []"
    | "snd (deploy_Run env opts args) = tr @ [PrettyPrint]"
    | "snd (deploy_Run env opts args) = tr @ [Print (Output_d opts1)]" by auto
  then show ?thesis
  proof cases
    case 1 then show ?thesis by (intro exI [of _ "[]"]) simp
  next
    case 2 then show ?thesis by (intro exI [of _ "[PrettyPrint]"]) simp
  next
    case 3 then show ?thesis by (intro exI [of _ "[Print (Output_d opts1)]"]) simp
  qed
next
  case True
  obtain r tr1 where d: "draining env opts1 tr = (r, tr1)"
    by (cases "draining env opts1 tr")
  obtain r2 tr2 where p: "print_result env opts1 insts sgs tr1 = (r2, tr2)"
    by (cases "print_result env opts1 insts sgs tr1")
  from True assms d p have run: "snd (deploy_Run env opts args) = (if r = None then tr2 else tr1)"
    by (auto simp: deploy_Run_def Start_def split: option.splits)
  let ?L = "lookup opts1" and ?t = "Milliseconds Minute"
  from draining_trace [OF d] print_result_trace [OF p] run
  consider "snd (deploy_Run env opts args) = tr @ [?L]"
    | u where "snd (deploy_Run env opts args) = tr @ [?L, StopByUUIDs ?t [u]]"
    | u where "snd (deploy_Run env opts args) =
        tr @ [?L, StopByUUIDs ?t [u], Sleep Minute, DeleteByUUIDs [u]]"
    | u where "snd (deploy_Run env opts args) =
        tr @ [?L, StopByUUIDs ?t [u], Sleep Minute, DeleteByUUIDs [u], PrettyPrint]"
    | u where "snd (deploy_Run env opts args) =
        tr @ [?L, StopByUUIDs ?t [u], Sleep Minute, DeleteByUUIDs [u], Print (Output_d opts1)]"
    by (auto split: if_splits)
  then show ?thesis
  proof cases
    case 1 then show ?thesis by (intro exI [of _ "[?L]"]) simp
  next
    case 2 then show ?thesis
      by (intro exI [of _ "[?L, StopByUUIDs ?t [u]]"]) (simp add: All_less_Suc)
  next
    case 3 then show ?thesis
      by (intro exI [of _ "[?L, StopByUUIDs ?t [u], Sleep Minute, DeleteByUUIDs [u]]"])
        (simp add: All_less_Suc)
  next
    case 4 then show ?thesis
      by (intro exI [of _ "[?L, StopByUUIDs ?t [u], Sleep Minute, DeleteByUUIDs [u], PrettyPrint]"])
        (simp add: All_less_Suc)
  next
    case 5 then show ?thesis
      by (intro exI [of _ "[?L, StopByUUIDs ?t [u], Sleep Minute, DeleteByUUIDs [u],
          Print (Output_d opts1)]"]) (simp add: All_less_Suc)
  qed
qed

lemma deploy_Run_ordered: "rollout_ordered (snd (deploy_Run env opts args))"
proof (cases "deploy_new env opts args")
  case (Inl early)
  obtain err tr where "early = (err, tr)" by (cases early)
  with Inl deploy_new_Inl_trace [of env opts args err tr]
  show ?thesis by (simp add: deploy_Run_def rollout_ordered_quiet)
next
  case (Inr ok)
  obtain opts1 insts sgs tr where ok: "ok = (opts1, insts, sgs, tr)" by (cases ok)
  from deploy_new_Inr_trace [OF Inr [unfolded ok]] obtain pre n where
    tr: "tr = pre @ [Deployed n True]" and quiet: "list_all (\<lambda>ev. \<not> retires ev) pre" by blast
  from deploy_Run_tail [OF Inr [unfolded ok]] obtain R where
    R: "snd (deploy_Run env opts args) = tr @ R" and
    tail: "\<forall>m<length R. is_delete (R ! m) \<longrightarrow>
       list_ex is_stop (take m R) \<and> \<not> list_ex is_stop (drop (Suc m) R)" by blast
  from tr quiet have "list_all (\<lambda>ev. \<not> retires ev) tr" "list_ex is_created tr" by simp_all
  from rollout_ordered_append [OF this tail] R show ?thesis by simp
qed

text \<open>
  C3: when the deploy operation has succeeded, a rollout target is given and the
  construction of the process tree returns an error, \<open>Run\<close> returns nil; its trace ends
  with the successful deploy operation and holds no stop and no delete request.
\<close>

theorem rollout_skipped_when_tree_construction_fails:
  assumes "deploy_new env opts args = Inr (opts1, insts, sgs, tr)"
    and "Rollout opts \<noteq> []" and "NewProcessTree env = Some err"
  shows "deploy_Run env opts args = (Returned None, tr) \<and>
         list_all (\<lambda>ev. \<not> retires ev) tr \<and> (\<exists>pre n. tr = pre @ [Deployed n True])"
proof -
  from deploy_new_Inr_opts(1) [OF assms(1)] assms(2) have "Rollout opts1 \<noteq> []" by simp
  with assms have run: "deploy_Run env opts args = (Returned None, tr)"
    by (simp add: deploy_Run_def)
  from deploy_new_Inr_trace [OF assms(1)] obtain pre n where
    "tr = pre @ [Deployed n True]" "list_all (\<lambda>ev. \<not> retires ev) pre" by blast
  with run show ?thesis by auto
qed

lemmas deploy_eval = deploy_Run_def deploy_new_def prepare_def resolve_def draining_def
  Start_def print_result_def call_def lookup_def deploy_env_of_def deploy_opts_def
  deployer_kraftfile_def deployer_compose_def deployer_image_def deployer_silent_def
  remote_one_def remote_two_def Milliseconds_def Minute_def Millisecond_def question_def

theorem rollout_skipped_when_tree_construction_fails_witness:
  "deploy_new (deploy_env_of [deployer_kraftfile] True (Some (New ''no terminal'')) remote_one)
     deploy_opts [] =
     Inr (deploy_opts\<lparr>Workdir := ''/srv/app''\<rparr>, [\<lparr>UUID = uuid2\<rparr>], [''web''],
          [Deployed ''kraftfile-runtime'' True]) \<and>
   Rollout deploy_opts \<noteq> [] \<and>
   NewProcessTree (deploy_env_of [deployer_kraftfile] True (Some (New ''no terminal'')) remote_one)
     = Some (New ''no terminal'') \<and>
   deploy_Run (deploy_env_of [deployer_kraftfile] True (Some (New ''no terminal'')) remote_one)
     deploy_opts [] = (Returned None, [Deployed ''kraftfile-runtime'' True])"
proof -
  let ?env = "deploy_env_of [deployer_kraftfile] True (Some (New ''no terminal'')) remote_one"
  have new: "deploy_new ?env deploy_opts [] =
     Inr (deploy_opts\<lparr>Workdir := ''/srv/app''\<rparr>, [\<lparr>UUID = uuid2\<rparr>], [''web''],
          [Deployed ''kraftfile-runtime'' True])"
    by (simp add: deploy_new_def prepare_def resolve_def call_def deploy_env_of_def
        deploy_opts_def deployer_kraftfile_def)
  have r: "Rollout deploy_opts \<noteq> []" by (simp add: deploy_opts_def)
  have t: "NewProcessTree ?env = Some (New ''no terminal'')" by (simp add: deploy_env_of_def)
  from rollout_skipped_when_tree_construction_fails [OF new r t] new r t
  show ?thesis by simp
qed

lemma not_IsUUID_old_app: "\<not> IsUUID ''old-app''"
  by code_simp

lemma Milliseconds_Minute: "Milliseconds Minute = 60000"
  by (simp add: Milliseconds_def Minute_def Millisecond_def)

lemma draining_retires:
  assumes "draining env opts tr = (r, tr1)" and "list_ex retires tr1"
    and "list_all (\<lambda>ev. \<not> retires ev) tr"
  shows "\<exists>old. remote env tr (lookup opts) = Inr [old]"
proof (cases "remote env tr (lookup opts)")
  case (Inl err)
  with assms show ?thesis
    by (auto simp: draining_def call_def list_ex_iff list_all_iff)
next
  case (Inr oldInsts)
  show ?thesis
  proof (cases "length oldInsts = 1")
    case True
    then obtain old where "oldInsts = [old]"
      by (cases oldInsts) auto
    with Inr show ?thesis by simp
  next
    case False
    with Inr assms show ?thesis
      by (auto simp: draining_def call_def list_ex_iff list_all_iff)
  qed
qed

lemma deploy_Run_quiet_without_rollout:
  assumes new: "deploy_new env opts args = Inr (opts1, insts, sgs, tr)"
    and skip: "Rollout opts1 = [] \<or> NewProcessTree env \<noteq> None"
  shows "list_all (\<lambda>ev. \<not> retires ev) (snd (deploy_Run env opts args))"
proof -
  from deploy_new_Inr_trace [OF new] have quiet: "list_all (\<lambda>ev. \<not> retires ev) tr" by auto
  obtain r tr1 where p: "print_result env opts1 insts sgs tr = (r, tr1)"
    by (cases "print_result env opts1 insts sgs tr")
  from print_result_trace [OF p] quiet have "list_all (\<lambda>ev. \<not> retires ev) tr1" by auto
  with new skip p quiet show ?thesis
    by (auto simp: deploy_Run_def split: option.splits)
qed

text \<open>
  C5: a rollout whose target resolves to no instance or to more than one is rejected:
  \<open>Run\<close> returns the error of the lookup step, and the trace up to and including the lookup
  holds no stop and no delete request. Conversely, whenever the trace of \<open>Run\<close> holds a stop
  or a delete request, the deploy operation succeeded, a rollout target was given and its
  lookup returned exactly one instance.
\<close>

theorem rollout_target_must_match_one_instance:
  "(deploy_new env opts args = Inr (opts1, insts, sgs, tr) \<and> Rollout opts \<noteq> [] \<and>
    NewProcessTree env = None \<and> remote env tr (lookup opts) = Inr oldInsts \<and>
    length oldInsts \<noteq> 1 \<longrightarrow>
      deploy_Run env opts args =
        (Returned (Some (Errorf ''could not start the process tree''
           (New (''expected 1 instance, got '' @ show_nat (length oldInsts))))),
         tr @ [lookup opts]) \<and>
      list_all (\<lambda>ev. \<not> retires ev) (tr @ [lookup opts])) \<and>
   (list_ex retires (snd (deploy_Run env opts args)) \<longrightarrow>
      (\<exists>opts1 insts sgs tr old. deploy_new env opts args = Inr (opts1, insts, sgs, tr) \<and>
         Rollout opts \<noteq> [] \<and> remote env tr (lookup opts) = Inr [old]))"
proof (intro conjI impI)
  assume h: "deploy_new env opts args = Inr (opts1, insts, sgs, tr) \<and> Rollout opts \<noteq> [] \<and>
    NewProcessTree env = None \<and> remote env tr (lookup opts) = Inr oldInsts \<and>
    length oldInsts \<noteq> 1"
  then have new: "deploy_new env opts args = Inr (opts1, insts, sgs, tr)" by simp
  note same = deploy_new_Inr_opts [OF new]
  from h same show "deploy_Run env opts args =
        (Returned (Some (Errorf ''could not start the process tree''
           (New (''expected 1 instance, got '' @ show_nat (length oldInsts))))),
         tr @ [lookup opts])"
    by (simp add: deploy_Run_def Start_def draining_def call_def)
  from deploy_new_Inr_trace [OF new]
  show "list_all (\<lambda>ev. \<not> retires ev) (tr @ [lookup opts])" by auto
next
  assume ret: "list_ex retires (snd (deploy_Run env opts args))"
  show "\<exists>opts1 insts sgs tr old. deploy_new env opts args = Inr (opts1, insts, sgs, tr) \<and>
         Rollout opts \<noteq> [] \<and> remote env tr (lookup opts) = Inr [old]"
  proof (cases "deploy_new env opts args")
    case (Inl early)
    obtain err tr where "early = (err, tr)" by (cases early)
    with Inl deploy_new_Inl_trace [of env opts args err tr] ret
    show ?thesis by (simp add: deploy_Run_def list_ex_iff list_all_iff)
  next
    case (Inr ok)
    obtain opts1 insts sgs tr where ok: "ok = (opts1, insts, sgs, tr)" by (cases ok)
    note new = Inr [unfolded ok]
    note same = deploy_new_Inr_opts [OF new]
    from deploy_new_Inr_trace [OF new] have quiet: "list_all (\<lambda>ev. \<not> retires ev) tr" by auto
    have roll: "Rollout opts1 \<noteq> [] \<and> NewProcessTree env = None"
    proof (rule ccontr)
      assume "\<not> (Rollout opts1 \<noteq> [] \<and> NewProcessTree env = None)"
      then have "Rollout opts1 = [] \<or> NewProcessTree env \<noteq> None" by auto
      from deploy_Run_quiet_without_rollout [OF new this] ret
      show False by (simp add: list_ex_iff list_all_iff)
    qed
    obtain r tr1 where d: "draining env opts1 tr = (r, tr1)"
      by (cases "draining env opts1 tr")
    have "list_ex retires tr1"
    proof (cases r)
      case (Some err)
      with new roll d ret show ?thesis by (simp add: deploy_Run_def Start_def)
    next
      case None
      obtain r2 tr2 where p: "print_result env opts1 insts sgs tr1 = (r2, tr2)"
        by (cases "print_result env opts1 insts sgs tr1")
      with None new roll d ret have "list_ex retires tr2"
        by (simp add: deploy_Run_def Start_def)
      with print_result_trace [OF p] show ?thesis by auto
    qed
    from draining_retires [OF d this quiet] same roll new show ?thesis by auto
  qed
qed

theorem rollout_target_must_match_one_instance_witness:
  "deploy_new (deploy_env_of [deployer_kraftfile] True None remote_two) deploy_opts [] =
     Inr (deploy_opts\<lparr>Workdir := ''/srv/app''\<rparr>, [\<lparr>UUID = uuid2\<rparr>], [''web''],
          [Deployed ''kraftfile-runtime'' True]) \<and>
   Rollout deploy_opts \<noteq> [] \<and>
   NewProcessTree (deploy_env_of [deployer_kraftfile] True None remote_two) = None \<and>
   remote (deploy_env_of [deployer_kraftfile] True None remote_two)
     [Deployed ''kraftfile-runtime'' True] (lookup deploy_opts) =
     Inr [\<lparr>UUID = uuid1\<rparr>, \<lparr>UUID = uuid2\<rparr>] \<and>
   length [\<lparr>UUID = uuid1\<rparr>, \<lparr>UUID = uuid2\<rparr>] \<noteq> 1 \<and>
   deploy_Run (deploy_env_of [deployer_kraftfile] True None remote_two) deploy_opts [] =
     (Returned (Some (Errorf ''could not start the process tree''
        (New ''expected 1 instance, got 2''))),
      [Deployed ''kraftfile-runtime'' True, GetByNames [''old-app'']]) \<and>
   list_ex retires
     (snd (deploy_Run (deploy_env_of [deployer_kraftfile] True None remote_one) deploy_opts [])) \<and>
   (\<exists>opts1 insts sgs tr old.
      deploy_new (deploy_env_of [deployer_kraftfile] True None remote_one) deploy_opts [] =
        Inr (opts1, insts, sgs, tr) \<and>
      Rollout deploy_opts \<noteq> [] \<and>
      remote (deploy_env_of [deployer_kraftfile] True None remote_one) tr (lookup deploy_opts) =
        Inr [old])"
proof -
  let ?two = "deploy_env_of [deployer_kraftfile] True None remote_two"
  let ?one = "deploy_env_of [deployer_kraftfile] True None remote_one"
  let ?tr = "[Deployed ''kraftfile-runtime'' True]"
  have new: "deploy_new ?two deploy_opts [] =
     Inr (deploy_opts\<lparr>Workdir := ''/srv/app''\<rparr>, [\<lparr>UUID = uuid2\<rparr>], [''web''], ?tr)"
    by (simp add: deploy_new_def prepare_def resolve_def call_def deploy_env_of_def
        deploy_opts_def deployer_kraftfile_def)
  have pre: "Rollout deploy_opts \<noteq> []" "NewProcessTree ?two = None"
    "remote ?two ?tr (lookup deploy_opts) = Inr [\<lparr>UUID = uuid1\<rparr>, \<lparr>UUID = uuid2\<rparr>]"
    "length [\<lparr>UUID = uuid1\<rparr>, \<lparr>UUID = uuid2\<rparr>] \<noteq> 1"
    by (simp_all add: deploy_opts_def deploy_env_of_def remote_two_def)
  have two: "show_nat (length [\<lparr>UUID = uuid1\<rparr>, \<lparr>UUID = uuid2\<rparr>]) = ''2''"
    by (simp add: show_nat.simps digit_def)
  have look: "lookup deploy_opts = GetByNames [''old-app'']"
    by (simp add: lookup_def deploy_opts_def not_IsUUID_old_app)
  have ret: "list_ex retires (snd (deploy_Run ?one deploy_opts []))"
    by (simp add: deploy_eval not_IsUUID_old_app)
  from rollout_target_must_match_one_instance [where env = ?two and opts = deploy_opts
      and args = "[]" and ?opts1.0 = "deploy_opts\<lparr>Workdir := ''/srv/app''\<rparr>"
      and insts = "[\<lparr>UUID = uuid2\<rparr>]" and sgs = "[''web'']" and tr = ?tr
      and oldInsts = "[\<lparr>UUID = uuid1\<rparr>, \<lparr>UUID = uuid2\<rparr>]"] new pre
  have a: "deploy_Run ?two deploy_opts [] =
     (Returned (Some (Errorf ''could not start the process tree''
        (New ''expected 1 instance, got 2''))),
      [Deployed ''kraftfile-runtime'' True, GetByNames [''old-app'']])"
    using two look by simp
  from rollout_target_must_match_one_instance [where env = ?one and opts = deploy_opts
      and args = "[]"] ret
  have b: "\<exists>opts1 insts sgs tr old.
      deploy_new ?one deploy_opts [] = Inr (opts1, insts, sgs, tr) \<and>
      Rollout deploy_opts \<noteq> [] \<and> remote ?one tr (lookup deploy_opts) = Inr [old]"
    by blast
  from new pre a ret b show ?thesis by blast
qed

text \<open>
  C9: in every trace of \<open>Run\<close> a stop or delete request comes only after a successful deploy
  operation, and a delete request only after the stop request, with no stop after it. When
  the delete step fails, \<open>Run\<close> returns the failure of the rollout; the failed delete of the
  old instance is the last request of the trace, so nothing is issued against the instance
  that the deploy operation created.
\<close>

theorem rollout_stop_precedes_delete:
  "rollout_ordered (snd (deploy_Run env opts args)) \<and>
   (deploy_new env opts args = Inr (opts1, insts, sgs, tr) \<and> Rollout opts \<noteq> [] \<and>
    NewProcessTree env = None \<and> remote env tr (lookup opts) = Inr [old] \<and>
    remote env (tr @ [lookup opts]) (StopByUUIDs 60000 [UUID old]) = Inr x \<and>
    remote env (tr @ [lookup opts, StopByUUIDs 60000 [UUID old], Sleep Minute])
      (DeleteByUUIDs [UUID old]) = Inl err \<longrightarrow>
      deploy_Run env opts args =
        (Returned (Some (Errorf ''could not start the process tree''
           (Errorf ''could not remove the old instance'' err))),
         tr @ [lookup opts, StopByUUIDs 60000 [UUID old], Sleep Minute,
               DeleteByUUIDs [UUID old]]) \<and>
      (\<exists>pre n. tr = pre @ [Deployed n True] \<and> list_all (\<lambda>ev. \<not> retires ev) pre))"
proof (intro conjI impI)
  show "rollout_ordered (snd (deploy_Run env opts args))"
    by (rule deploy_Run_ordered)
next
  assume h: "deploy_new env opts args = Inr (opts1, insts, sgs, tr) \<and> Rollout opts \<noteq> [] \<and>
    NewProcessTree env = None \<and> remote env tr (lookup opts) = Inr [old] \<and>
    remote env (tr @ [lookup opts]) (StopByUUIDs 60000 [UUID old]) = Inr x \<and>
    remote env (tr @ [lookup opts, StopByUUIDs 60000 [UUID old], Sleep Minute])
      (DeleteByUUIDs [UUID old]) = Inl err"
  then have new: "deploy_new env opts args = Inr (opts1, insts, sgs, tr)" by simp
  note same = deploy_new_Inr_opts [OF new]
  from h same show "deploy_Run env opts args =
        (Returned (Some (Errorf ''could not start the process tree''
           (Errorf ''could not remove the old instance'' err))),
         tr @ [lookup opts, StopByUUIDs 60000 [UUID old], Sleep Minute,
               DeleteByUUIDs [UUID old]])"
    by (simp add: deploy_Run_def Start_def draining_def call_def Milliseconds_Minute)
  from deploy_new_Inr_trace [OF new]
  show "\<exists>pre n. tr = pre @ [Deployed n True] \<and> list_all (\<lambda>ev. \<not> retires ev) pre" .
qed

theorem rollout_stop_precedes_delete_witness:
  "deploy_new (deploy_env_of [deployer_kraftfile] True None remote_one) deploy_opts [] =
     Inr (deploy_opts\<lparr>Workdir := ''/srv/app''\<rparr>, [\<lparr>UUID = uuid2\<rparr>], [''web''],
          [Deployed ''kraftfile-runtime'' True]) \<and>
   Rollout deploy_opts \<noteq> [] \<and>
   NewProcessTree (deploy_env_of [deployer_kraftfile] True None remote_one) = None \<and>
   remote (deploy_env_of [deployer_kraftfile] True None remote_one)
     [Deployed ''kraftfile-runtime'' True] (GetByNames [''old-app'']) = Inr [\<lparr>UUID = uuid1\<rparr>] \<and>
   remote (deploy_env_of [deployer_kraftfile] True None remote_one)
     [Deployed ''kraftfile-runtime'' True, GetByNames [''old-app'']]
     (StopByUUIDs 60000 [uuid1]) = Inr [\<lparr>UUID = uuid1\<rparr>] \<and>
   remote (deploy_env_of [deployer_kraftfile] True None remote_one)
     [Deployed ''kraftfile-runtime'' True, GetByNames [''old-app''],
      StopByUUIDs 60000 [uuid1], Sleep Minute]
     (DeleteByUUIDs [uuid1]) = Inl (New ''remote failure'') \<and>
   deploy_Run (deploy_env_of [deployer_kraftfile] True None remote_one) deploy_opts [] =
     (Returned (Some (Errorf ''could not start the process tree''
        (Errorf ''could not remove the old instance'' (New ''remote failure'')))),
      [Deployed ''kraftfile-runtime'' True, GetByNames [''old-app''],
       StopByUUIDs 60000 [uuid1], Sleep Minute, DeleteByUUIDs [uuid1]]) \<and>
   rollout_ordered
     [Deployed ''kraftfile-runtime'' True, GetByNames [''old-app''],
      StopByUUIDs 60000 [uuid1], Sleep Minute, DeleteByUUIDs [uuid1]]"
proof -
  let ?one = "deploy_env_of [deployer_kraftfile] True None remote_one"
  let ?tr = "[Deployed ''kraftfile-runtime'' True]"
  have new: "deploy_new ?one deploy_opts [] =
     Inr (deploy_opts\<lparr>Workdir := ''/srv/app''\<rparr>, [\<lparr>UUID = uuid2\<rparr>], [''web''], ?tr)"
    by (simp add: deploy_new_def prepare_def resolve_def call_def deploy_env_of_def
        deploy_opts_def deployer_kraftfile_def)
  have look: "lookup deploy_opts = GetByNames [''old-app'']"
    by (simp add: lookup_def deploy_opts_def not_IsUUID_old_app)
  have pre: "Rollout deploy_opts \<noteq> []" "NewProcessTree ?one = None"
    "remote ?one ?tr (GetByNames [''old-app'']) = Inr [\<lparr>UUID = uuid1\<rparr>]"
    "remote ?one (?tr @ [GetByNames [''old-app'']]) (StopByUUIDs 60000 [uuid1]) =
       Inr [\<lparr>UUID = uuid1\<rparr>]"
    "remote ?one (?tr @ [GetByNames [''old-app''], StopByUUIDs 60000 [uuid1], Sleep Minute])
       (DeleteByUUIDs [uuid1]) = Inl (New ''remote failure'')"
    by (simp_all add: deploy_opts_def deploy_env_of_def remote_one_def)
  note inst = rollout_stop_precedes_delete [where env = ?one and opts = deploy_opts
      and args = "[]" and ?opts1.0 = "deploy_opts\<lparr>Workdir := ''/srv/app''\<rparr>"
      and insts = "[\<lparr>UUID = uuid2\<rparr>]" and sgs = "[''web'']" and tr = ?tr
      and old = "\<lparr>UUID = uuid1\<rparr>" and x = "[\<lparr>UUID = uuid1\<rparr>]"
      and err = "New ''remote failure''"]
  from inst new pre look
  have run: "deploy_Run ?one deploy_opts [] =
     (Returned (Some (Errorf ''could not start the process tree''
        (Errorf ''could not remove the old instance'' (New ''remote failure'')))),
      [Deployed ''kraftfile-runtime'' True, GetByNames [''old-app''],
       StopByUUIDs 60000 [uuid1], Sleep Minute, DeleteByUUIDs [uuid1]])"
    by simp
  from inst have "rollout_ordered (snd (deploy_Run ?one deploy_opts []))" by blast
  with run have ord: "rollout_ordered
     [Deployed ''kraftfile-runtime'' True, GetByNames [''old-app''],
      StopByUUIDs 60000 [uuid1], Sleep Minute, DeleteByUUIDs [uuid1]]" by simp
  from new pre run ord show ?thesis by simp
qed

section \<open>Properties of the deployer resolution\<close>

lemma candidates_of_Nil: "candidates_of [] opts args = []"
  by (simp add: candidates_of_def probed_def)

lemma decline_errors_Nil: "decline_errors [] opts args = []"
  by (simp add: decline_errors_def probed_def map_filter_simps)

lemma candidates_of_Cons:
  "candidates_of (d # ds) opts args =
     (if DeployAs opts \<noteq> [] \<and> Name d \<noteq> DeployAs opts then candidates_of ds opts args
      else if fst (Deployable d opts args) \<and> snd (Deployable d opts args) = None
           then d # candidates_of ds opts args
           else candidates_of ds opts args)"
  by (simp add: candidates_of_def probed_def)

lemma decline_errors_Cons:
  "decline_errors (d # ds) opts args =
     (if DeployAs opts \<noteq> [] \<and> Name d \<noteq> DeployAs opts then decline_errors ds opts args
      else (case snd (Deployable d opts args) of
              None \<Rightarrow> decline_errors ds opts args
            | Some e \<Rightarrow> e # decline_errors ds opts args))"
  by (simp add: decline_errors_def probed_def map_filter_simps split: option.split)

lemma probe_eq:
  "probe ds opts args (cs, es) =
     (cs @ candidates_of ds opts args, es @ decline_errors ds opts args)"
proof (induction ds arbitrary: cs es)
  case Nil
  show ?case by (simp add: candidates_of_Nil decline_errors_Nil)
next
  case (Cons d ds)
  obtain capable err where c: "Deployable d opts args = (capable, err)"
    by (cases "Deployable d opts args")
  show ?case
    by (simp only: probe.simps candidates_of_Cons decline_errors_Cons Cons.IH c)
      (simp split: option.split)
qed






lemma prepare_no_deploy:
  assumes "prepare env opts args = Inr (opts1, args1, tr)"
  shows "filter is_deploy tr = []" "filter is_prompt tr = []"
  using prepare_Inr [OF assms] by (auto simp: is_deploy_def is_prompt_def)






lemma is_prompt_simps [simp]:
  "is_prompt (Prompt q ls)" "\<not> is_prompt (Deployed n ok)" "\<not> is_prompt (lookup opts)"
  "\<not> is_prompt (StopByUUIDs t us)" "\<not> is_prompt (Sleep m)" "\<not> is_prompt (DeleteByUUIDs us)"
  "\<not> is_prompt PrettyPrint" "\<not> is_prompt (Print out)" "\<not> is_prompt (GetByNames ns)"
  by (simp_all add: is_prompt_def lookup_def)

lemma is_deploy_simps [simp]:
  "\<not> is_deploy (Prompt q ls)" "is_deploy (Deployed n ok)" "\<not> is_deploy (lookup opts)"
  "\<not> is_deploy (StopByUUIDs t us)" "\<not> is_deploy (Sleep m)" "\<not> is_deploy (DeleteByUUIDs us)"
  "\<not> is_deploy PrettyPrint" "\<not> is_deploy (Print out)" "\<not> is_deploy (GetByNames ns)"
  by (simp_all add: is_deploy_def lookup_def)

lemma print_result_silent:
  assumes "print_result env opts insts sgs tr = (r, tr1)"
  shows "filter is_prompt tr1 = filter is_prompt tr \<and> filter is_deploy tr1 = filter is_deploy tr"
  using print_result_trace [OF assms] by auto

lemma draining_silent:
  assumes "draining env opts tr = (r, tr1)"
  shows "filter is_prompt tr1 = filter is_prompt tr \<and> filter is_deploy tr1 = filter is_deploy tr"
  using draining_trace [OF assms] by auto

lemma deploy_Run_after_deploy_silent:
  assumes "deploy_new env opts args = Inr (opts1, insts, sgs, tr)"
  shows "filter is_prompt (snd (deploy_Run env opts args)) = filter is_prompt tr \<and>
         filter is_deploy (snd (deploy_Run env opts args)) = filter is_deploy tr"
proof -
  obtain r tr1 where d: "draining env opts1 tr = (r, tr1)"
    by (cases "draining env opts1 tr")
  obtain r2 tr2 where p: "print_result env opts1 insts sgs tr = (r2, tr2)"
    by (cases "print_result env opts1 insts sgs tr")
  obtain r3 tr3 where q: "print_result env opts1 insts sgs tr1 = (r3, tr3)"
    by (cases "print_result env opts1 insts sgs tr1")
  from assms d p q have "snd (deploy_Run env opts args) \<in> {tr, tr1, tr2, tr3}"
    by (auto simp: deploy_Run_def Start_def split: option.splits)
  with draining_silent [OF d] print_result_silent [OF p] print_result_silent [OF q]
  show ?thesis by auto
qed

lemma resolve_many:
  assumes "2 \<le> length (candidates_of (deployers env) opts args)"
  shows "resolve env opts args tr =
    (if \<not> NoPrompt env then
       (Select env question (candidates_of (deployers env) opts args),
        tr @ [Prompt question (map String (candidates_of (deployers env) opts args))])
     else (Inl (New (''multiple contexts discovered: ''
             @ fmt_v (candidates_of (deployers env) opts args))), tr))"
  using assms by (auto simp: resolve_def probe_eq split: sum.splits)

text \<open>
  C7: when two or more visited deployers are capable, then in interactive mode the trace of
  \<open>Run\<close> holds exactly one prompt, listing the labels of the candidates in registration
  order, and exactly one deploy operation, that of the selected deployer; in
  non-interactive mode \<open>Run\<close> fails with the error that reports the candidates, and its
  trace holds no prompt and no deploy operation.
\<close>

theorem ambiguous_deployers_resolution:
  assumes "prepare env opts args = Inr (opts1, args1, tr)"
    and "2 \<le> length (candidates_of (deployers env) opts1 args1)"
  shows "(\<not> NoPrompt env \<and>
          Select env question (candidates_of (deployers env) opts1 args1) = Inr d \<longrightarrow>
            filter is_prompt (snd (deploy_Run env opts args)) =
              [Prompt question (map String (candidates_of (deployers env) opts1 args1))] \<and>
            filter is_deploy (snd (deploy_Run env opts args)) =
              [Deployed (Name d) (\<not> isl (Deploy d opts1 args1))]) \<and>
         (NoPrompt env \<longrightarrow>
            deploy_Run env opts args =
              (Returned (Some (New (''multiple contexts discovered: ''
                 @ fmt_v (candidates_of (deployers env) opts1 args1)))), tr) \<and>
            filter is_prompt tr = [] \<and> filter is_deploy tr = [])"
proof (intro conjI impI)
  assume np: "NoPrompt env"
  with assms show "deploy_Run env opts args =
      (Returned (Some (New (''multiple contexts discovered: ''
         @ fmt_v (candidates_of (deployers env) opts1 args1)))), tr)"
    by (simp add: deploy_Run_def deploy_new_def resolve_many)
  show "filter is_prompt tr = []" "filter is_deploy tr = []"
    by (rule prepare_no_deploy [OF assms(1)])+
next
  let ?cs = "candidates_of (deployers env) opts1 args1"
  let ?tr1 = "tr @ [Prompt question (map String ?cs)]"
  assume "\<not> NoPrompt env \<and> Select env question ?cs = Inr d"
  with assms(2) have res: "resolve env opts1 args1 tr = (Inr d, ?tr1)"
    by (simp add: resolve_many)
  note quiet = prepare_no_deploy [OF assms(1)]
  have "filter is_prompt (snd (deploy_Run env opts args)) = [Prompt question (map String ?cs)] \<and>
        filter is_deploy (snd (deploy_Run env opts args)) =
          [Deployed (Name d) (\<not> isl (Deploy d opts1 args1))]"
  proof (cases "Deploy d opts1 args1")
    case (Inl err)
    with assms(1) res have "deploy_Run env opts args =
        (Returned (Some (Errorf ''could not prepare deployment'' err)),
         ?tr1 @ [Deployed (Name d) False])"
      by (simp add: deploy_Run_def deploy_new_def)
    with quiet Inl show ?thesis by simp
  next
    case (Inr created)
    obtain insts sgs where "created = (insts, sgs)" by (cases created)
    with Inr assms(1) res have new: "deploy_new env opts args =
        Inr (opts1, insts, sgs, ?tr1 @ [Deployed (Name d) True])"
      by (simp add: deploy_new_def)
    from deploy_Run_after_deploy_silent [OF new] quiet Inr show ?thesis by simp
  qed
  then show "filter is_prompt (snd (deploy_Run env opts args)) =
      [Prompt question (map String ?cs)]"
    and "filter is_deploy (snd (deploy_Run env opts args)) =
      [Deployed (Name d) (\<not> isl (Deploy d opts1 args1))]" by simp_all
qed

theorem ambiguous_deployers_resolution_witness:
  "prepare (deploy_env_of [deployer_kraftfile, deployer_image, deployer_compose] False None
       remote_one) (deploy_opts\<lparr>Rollout := []\<rparr>) [] =
     Inr (deploy_opts\<lparr>Rollout := [], Workdir := ''/srv/app''\<rparr>, [], []) \<and>
   candidates_of [deployer_kraftfile, deployer_image, deployer_compose]
     (deploy_opts\<lparr>Rollout := [], Workdir := ''/srv/app''\<rparr>) [] =
     [deployer_kraftfile, deployer_compose] \<and>
   \<not> NoPrompt (deploy_env_of [deployer_kraftfile, deployer_image, deployer_compose] False None
       remote_one) \<and>
   Select (deploy_env_of [deployer_kraftfile, deployer_image, deployer_compose] False None
       remote_one) question [deployer_kraftfile, deployer_compose] = Inr deployer_compose \<and>
   filter is_prompt (snd (deploy_Run
       (deploy_env_of [deployer_kraftfile, deployer_image, deployer_compose] False None
          remote_one) (deploy_opts\<lparr>Rollout := []\<rparr>) [])) =
     [Prompt question [''run the cwd with Kraftfile'', ''run the Compose project'']] \<and>
   filter is_deploy (snd (deploy_Run
       (deploy_env_of [deployer_kraftfile, deployer_image, deployer_compose] False None
          remote_one) (deploy_opts\<lparr>Rollout := []\<rparr>) [])) =
     [Deployed ''compose'' True] \<and>
   NoPrompt (deploy_env_of [deployer_kraftfile, deployer_image, deployer_compose] True None
       remote_one) \<and>
   deploy_Run (deploy_env_of [deployer_kraftfile, deployer_image, deployer_compose] True None
       remote_one) (deploy_opts\<lparr>Rollout := []\<rparr>) [] =
     (Returned (Some (New
        ''multiple contexts discovered: [run the cwd with Kraftfile run the Compose project]'')),
      [])"
proof -
  let ?ds = "[deployer_kraftfile, deployer_image, deployer_compose]"
  let ?int = "deploy_env_of ?ds False None remote_one"
  let ?bat = "deploy_env_of ?ds True None remote_one"
  let ?opts = "deploy_opts\<lparr>Rollout := []\<rparr>"
  let ?opts1 = "deploy_opts\<lparr>Rollout := [], Workdir := ''/srv/app''\<rparr>"
  have prep: "prepare ?int ?opts [] = Inr (?opts1, [], [])"
    "prepare ?bat ?opts [] = Inr (?opts1, [], [])"
    by (simp_all add: prepare_def deploy_env_of_def deploy_opts_def)
  have ds: "deployers ?int = ?ds" "deployers ?bat = ?ds"
    by (simp_all add: deploy_env_of_def)
  have cs: "candidates_of ?ds ?opts1 [] = [deployer_kraftfile, deployer_compose]"
    by (simp add: candidates_of_def probed_def deploy_opts_def
        deployer_kraftfile_def deployer_image_def deployer_compose_def)
  have many: "2 \<le> length (candidates_of (deployers ?int) ?opts1 [])"
    "2 \<le> length (candidates_of (deployers ?bat) ?opts1 [])"
    by (simp_all add: ds cs)
  have mode: "\<not> NoPrompt ?int" "NoPrompt ?bat"
    "Select ?int question [deployer_kraftfile, deployer_compose] = Inr deployer_compose"
    by (simp_all add: deploy_env_of_def)
  have vals: "map String [deployer_kraftfile, deployer_compose] =
      [''run the cwd with Kraftfile'', ''run the Compose project'']"
    "Name deployer_compose = ''compose''"
    "\<not> isl (Deploy deployer_compose ?opts1 [])"
    "''multiple contexts discovered: '' @ fmt_v [deployer_kraftfile, deployer_compose] =
       ''multiple contexts discovered: [run the cwd with Kraftfile run the Compose project]''"
    by (simp_all add: deployer_kraftfile_def deployer_compose_def fmt_v_def)
  note a = ambiguous_deployers_resolution [OF prep(1) many(1), where d = deployer_compose,
      unfolded ds cs vals]
  note b = ambiguous_deployers_resolution [OF prep(2) many(2), where d = deployer_compose,
      unfolded ds cs vals]
  from a mode vals(3) have 1: "filter is_prompt (snd (deploy_Run ?int ?opts [])) =
     [Prompt question [''run the cwd with Kraftfile'', ''run the Compose project'']]"
    and 2: "filter is_deploy (snd (deploy_Run ?int ?opts [])) = [Deployed ''compose'' True]"
    by simp_all
  from b mode have 3: "deploy_Run ?bat ?opts [] =
     (Returned (Some (New
        ''multiple contexts discovered: [run the cwd with Kraftfile run the Compose project]'')),
      [])" by simp
  from prep cs mode 1 2 3 show ?thesis by simp
qed

end
